theory Spec2Isabelle
  imports Main
begin

section \<open>Data model\<close>

text \<open>
  The repository holds two variants of one React form: \<^verbatim>\<open>src/App.js\<close> (name
  resolution after a 500 ms debounce, identity re-checked at submit time) and
  \<^verbatim>\<open>app/page.js\<close> (name resolution on blur, identity inserted at submit time).
  Definitions shared by both keep the source's name; where the two files differ the
  definition carries the suffix \<open>_App\<close> or \<open>_page\<close>.
\<close>

text \<open>
  Identifiers are numeric keys generated by the remote store. A React state variable
  holding \<^verbatim>\<open>null\<close> is \<open>None\<close>. The tests \<^verbatim>\<open>if (existingRoommate)\<close> and
  \<^verbatim>\<open>if (roommateData)\<close> are on a row object or \<^verbatim>\<open>null\<close> and are tests for
  \<open>None\<close>. The test \<^verbatim>\<open>!currentRoommateId\<close> is on an id: JavaScript takes both
  \<^verbatim>\<open>null\<close> and the number 0 as false, so the id counts as present when it is
  \<open>truthy_id\<close>.
\<close>

type_synonym ident = nat

definition truthy_id :: "ident option \<Rightarrow> bool" where
  "truthy_id i = (case i of None \<Rightarrow> False | Some n \<Rightarrow> n \<noteq> 0)"

text \<open>
  The values a preference score can take in the running program: a number (from
  \<^verbatim>\<open>parseInt\<close> or from the store), \<^verbatim>\<open>NaN\<close> (from \<^verbatim>\<open>parseInt\<close>) or
  \<^verbatim>\<open>null\<close> (from the store). \<^verbatim>\<open>undefined\<close> is the absence of the key in the
  preference object.
\<close>

datatype jsval = Num int | NaN | Null

fun truthy :: "jsval \<Rightarrow> bool" where
  "truthy (Num n) = (n \<noteq> 0)"
| "truthy NaN = False"
| "truthy Null = False"

text \<open>The expression \<^verbatim>\<open>preferences[chore.id] || 1\<close>.\<close>

definition score_or_default :: "jsval option \<Rightarrow> jsval" where
  "score_or_default v = (case v of None \<Rightarrow> Num 1 | Some x \<Rightarrow> if truthy x then x else Num 1)"

record chore =
  chore_ident :: nat
  chore_name :: string

record roommate =
  roommate_ident :: ident
  roommate_name :: string

record preference =
  roommate_id :: ident
  chore_id :: nat
  preference_score :: jsval

text \<open>
  \<^verbatim>\<open>String.prototype.trim\<close> on the ASCII white space characters (tab, line feed,
  vertical tab, form feed, carriage return, space).
\<close>

definition is_space :: "char \<Rightarrow> bool" where
  "is_space c =
     (c = CHR 0x09 \<or> c = CHR 0x0A \<or> c = CHR 0x0B \<or> c = CHR 0x0C \<or> c = CHR 0x0D \<or>
      c = CHR 0x20)"

definition trim :: "string \<Rightarrow> string" where
  "trim s = rev (dropWhile is_space (rev (dropWhile is_space s)))"

section \<open>The remote store\<close>

text \<open>
  Modelled from the spec: the remote row store (Supabase) is an external collaborator,
  absent from the sources; it is modelled from section 6 of the specification and from
  the client calls the sources make. It has the three collections \<open>chores\<close>,
  \<open>roommates\<close> and \<open>preferences\<close> and a sequence for generated roommate ids. Two
  facts of the schema are not fixed by the sources and are parameters of the store:
  whether \<open>roommates.name\<close> carries a unique constraint, and whether the primary key of
  \<open>preferences\<close> is the pair (roommate_id, chore_id), as in the specification's data model,
  or a surrogate key beside a unique index on that pair.
\<close>

record store =
  chores_table :: "chore list"
  roommates_table :: "roommate list"
  preferences_table :: "preference list"
  next_ident :: ident
  name_unique :: bool
  pk_roommate_chore :: bool

datatype db_error = PGRST116 | UniqueViolation | Unavailable

text \<open>
  Modelled from the spec: every remote call takes a flag \<open>fails\<close>, chosen by the
  environment: the transport or the backend fails and the client returns an error other
  than \<open>PGRST116\<close>.
\<close>

definition select_all_chores :: "bool \<Rightarrow> store \<Rightarrow> db_error + chore list" where
  "select_all_chores fails st = (if fails then Inl Unavailable else Inr (chores_table st))"

text \<open>
  Modelled from the spec: \<^verbatim>\<open>.from('roommates').select(..).eq('name', n)\<close>, the rows
  whose name is \<open>n\<close>.
\<close>

definition roommates_eq_name :: "string \<Rightarrow> store \<Rightarrow> roommate list" where
  "roommates_eq_name n st = filter (\<lambda>r. roommate_name r = n) (roommates_table st)"

text \<open>
  Modelled from the spec: \<^verbatim>\<open>.single()\<close> expects exactly one row and answers the
  error \<open>PGRST116\<close> otherwise.
\<close>

definition single :: "bool \<Rightarrow> 'a list \<Rightarrow> db_error + 'a" where
  "single fails rows =
     (if fails then Inl Unavailable
      else case rows of [r] \<Rightarrow> Inr r | _ \<Rightarrow> Inl PGRST116)"

text \<open>
  Modelled from the spec: \<^verbatim>\<open>.maybeSingle()\<close> answers \<^verbatim>\<open>null\<close> for no row, the
  row for one row and the error \<open>PGRST116\<close> for more.
\<close>

definition maybeSingle :: "bool \<Rightarrow> 'a list \<Rightarrow> db_error + 'a option" where
  "maybeSingle fails rows =
     (if fails then Inl Unavailable
      else case rows of [] \<Rightarrow> Inr None | [r] \<Rightarrow> Inr (Some r) | _ \<Rightarrow> Inl PGRST116)"

text \<open>
  Modelled from the spec:
  \<^verbatim>\<open>.from('roommates').insert([{ name: n }]).select().single()\<close>; the new row gets the
  next generated id and is returned; under the unique constraint a name already stored is
  refused.
\<close>

definition insert_roommate :: "bool \<Rightarrow> string \<Rightarrow> store \<Rightarrow> db_error + (roommate \<times> store)" where
  "insert_roommate fails n st =
     (if fails then Inl Unavailable
      else if name_unique st \<and> roommates_eq_name n st \<noteq> [] then Inl UniqueViolation
      else let r = \<lparr>roommate_ident = next_ident st, roommate_name = n\<rparr>
           in Inr (r, st\<lparr>roommates_table := roommates_table st @ [r],
                          next_ident := Suc (next_ident st)\<rparr>))"

text \<open>
  Modelled from the spec:
  \<^verbatim>\<open>.from('preferences').select('chore_id, preference_score').eq('roommate_id', i)\<close>.
\<close>

definition select_preferences :: "bool \<Rightarrow> ident \<Rightarrow> store \<Rightarrow> db_error + preference list" where
  "select_preferences fails i st =
     (if fails then Inl Unavailable
      else Inr (filter (\<lambda>p. roommate_id p = i) (preferences_table st)))"

text \<open>
  Modelled from the spec: the composite key of a preference row, and one row of an upsert
  on the pair (roommate_id, chore_id): a stored row with the same pair gets the new score,
  otherwise the row is added.
\<close>

definition pref_key :: "preference \<Rightarrow> ident \<times> nat" where
  "pref_key p = (roommate_id p, chore_id p)"

definition upsert_row :: "preference list \<Rightarrow> preference \<Rightarrow> preference list" where
  "upsert_row tbl p =
     (if pref_key p \<in> set (map pref_key tbl)
      then map (\<lambda>r. if pref_key r = pref_key p
                     then r\<lparr>preference_score := preference_score p\<rparr> else r) tbl
      else tbl @ [p])"

text \<open>
  Modelled from the spec: the conflict target of an upsert, which is the columns named by
  \<^verbatim>\<open>onConflict\<close>, or the primary key of the table when the call names none.
\<close>

datatype conflict_target = OnConflict_roommate_id_chore_id | OnConflict_primary_key

text \<open>
  Modelled from the spec: \<^verbatim>\<open>.from('preferences').upsert(rows, ..)\<close>, one request for
  the whole batch. When the conflict target is the pair, existing rows are overwritten and
  missing rows inserted, row by row in the order of the batch.
  When the target is a surrogate primary key, which the rows of the batch do not carry, no
  conflict is detected: every row is inserted, and the unique index on the pair refuses
  the request when a pair is already stored or occurs twice in the batch.
\<close>

definition upsert_preferences ::
    "bool \<Rightarrow> conflict_target \<Rightarrow> preference list \<Rightarrow> store \<Rightarrow> db_error + store" where
  "upsert_preferences fails target rows st =
     (if fails then Inl Unavailable
      else if target = OnConflict_roommate_id_chore_id \<or> pk_roommate_chore st
      then Inr (st\<lparr>preferences_table := foldl upsert_row (preferences_table st) rows\<rparr>)
      else if distinct (map pref_key (preferences_table st @ rows))
      then Inr (st\<lparr>preferences_table := preferences_table st @ rows\<rparr>)
      else Inl UniqueViolation)"

section \<open>Session state and effects\<close>

text \<open>The five \<^verbatim>\<open>useState\<close> variables of the component.\<close>

record session =
  roommateName :: string
  roommateId :: "ident option"
  chores :: "chore list"
  preferences :: "nat \<rightharpoonup> jsval"
  loading :: bool

datatype notice = Alert string | ConsoleError string

text \<open>
  An asynchronous function that has been called and whose remote calls have not been
  answered yet. \<open>HandleSubmit\<close> carries the render state its closure captured:
  \<^verbatim>\<open>handleSubmit\<close> reads \<open>roommateId\<close>, \<open>roommateName\<close>, \<open>chores\<close> and
  \<open>preferences\<close> from that render, while its setters act on the live state.
\<close>

datatype task = FetchChores | FetchRoommateData string | HandleSubmit session

text \<open>
  The world: the live React state, the remote store, the pending debounce timer of
  \<^verbatim>\<open>App.js\<close> with the name its callback captured, the asynchronous calls in flight,
  and what has been shown (\<^verbatim>\<open>alert\<close>) or logged (\<^verbatim>\<open>console.error\<close>) so far.
\<close>

record world =
  ui :: session
  db :: store
  timer :: "string option"
  inflight :: "task list"
  out :: "notice list"

text \<open>The outcome the environment chooses for each kind of remote call.\<close>

record faults =
  chores_select_fails :: bool
  roommates_select_fails :: bool
  roommates_insert_fails :: bool
  preferences_select_fails :: bool
  preferences_upsert_fails :: bool

definition setRoommateName :: "string \<Rightarrow> world \<Rightarrow> world" where
  "setRoommateName n w = w\<lparr>ui := (ui w)\<lparr>roommateName := n\<rparr>\<rparr>"

definition setRoommateId :: "ident option \<Rightarrow> world \<Rightarrow> world" where
  "setRoommateId i w = w\<lparr>ui := (ui w)\<lparr>roommateId := i\<rparr>\<rparr>"

definition setChores :: "chore list \<Rightarrow> world \<Rightarrow> world" where
  "setChores cs w = w\<lparr>ui := (ui w)\<lparr>chores := cs\<rparr>\<rparr>"

definition setPreferences :: "(nat \<rightharpoonup> jsval) \<Rightarrow> world \<Rightarrow> world" where
  "setPreferences m w = w\<lparr>ui := (ui w)\<lparr>preferences := m\<rparr>\<rparr>"

definition setLoading :: "bool \<Rightarrow> world \<Rightarrow> world" where
  "setLoading b w = w\<lparr>ui := (ui w)\<lparr>loading := b\<rparr>\<rparr>"

definition alert :: "string \<Rightarrow> world \<Rightarrow> world" where
  "alert msg w = w\<lparr>out := out w @ [Alert msg]\<rparr>"

definition console_error :: "string \<Rightarrow> world \<Rightarrow> world" where
  "console_error msg w = w\<lparr>out := out w @ [ConsoleError msg]\<rparr>"

section \<open>Loading the catalog and resolving a name\<close>

text \<open>\<^verbatim>\<open>fetchChores\<close>, the same in both files.\<close>

definition fetchChores :: "faults \<Rightarrow> world \<Rightarrow> world" where
  "fetchChores f w =
     (case select_all_chores (chores_select_fails f) (db w) of
        Inl e \<Rightarrow> console_error ''Error fetching chores:'' w
      | Inr choresData \<Rightarrow> setChores choresData w)"

text \<open>The \<^verbatim>\<open>forEach\<close> loop that builds \<^verbatim>\<open>preferencesMap\<close>.\<close>

definition preferencesMap :: "preference list \<Rightarrow> (nat \<rightharpoonup> jsval)" where
  "preferencesMap preferencesData =
     foldl (\<lambda>m pref. m(chore_id pref \<mapsto> preference_score pref)) Map.empty preferencesData"

text \<open>
  The part of \<^verbatim>\<open>fetchRoommateData\<close> both files share: the identity was found, its
  id is stored and its preferences are fetched.
\<close>

definition fetchPreferences :: "faults \<Rightarrow> roommate \<Rightarrow> world \<Rightarrow> world" where
  "fetchPreferences f roommateData w =
     (let w1 = setRoommateId (Some (roommate_ident roommateData)) w
      in case select_preferences (preferences_select_fails f) (roommate_ident roommateData) (db w1) of
           Inl e \<Rightarrow> console_error ''Error fetching preferences:'' w1
         | Inr preferencesData \<Rightarrow> setPreferences (preferencesMap preferencesData) w1)"

text \<open>\<^verbatim>\<open>fetchRoommateData\<close> of \<^verbatim>\<open>App.js\<close> (lines 49 to 89).\<close>

definition fetchRoommateData_App :: "faults \<Rightarrow> string \<Rightarrow> world \<Rightarrow> world" where
  "fetchRoommateData_App f name w =
     (let trimmedName = trim name
      in case single (roommates_select_fails f) (roommates_eq_name trimmedName (db w)) of
           Inl roommateError \<Rightarrow>
             (if roommateError = PGRST116
              then setPreferences Map.empty (setRoommateId None w)
              else console_error ''Error fetching roommate:'' w)
         | Inr roommateData \<Rightarrow> fetchPreferences f roommateData w)"

text \<open>
  \<^verbatim>\<open>fetchRoommateData\<close> of \<^verbatim>\<open>page.js\<close> (lines 32 to 68): an error other than
  \<open>PGRST116\<close> is logged, and the function goes on with \<^verbatim>\<open>roommateData\<close> being
  \<^verbatim>\<open>null\<close>.
\<close>

definition fetchRoommateData_page :: "faults \<Rightarrow> string \<Rightarrow> world \<Rightarrow> world" where
  "fetchRoommateData_page f name w =
     (case single (roommates_select_fails f) (roommates_eq_name name (db w)) of
        Inl roommateError \<Rightarrow>
          (let w1 = (if roommateError \<noteq> PGRST116
                     then console_error ''Error fetching roommate:'' w else w)
           in setPreferences Map.empty (setRoommateId None w1))
      | Inr roommateData \<Rightarrow> fetchPreferences f roommateData w)"

text \<open>
  Settling the name field. \<^verbatim>\<open>fetchRoommateData\<close> is asynchronous: calling it issues
  the lookup, and the rest of its body runs when the answer arrives; the call is recorded
  in \<open>inflight\<close>. The callback of the debounce timer in \<^verbatim>\<open>App.js\<close> (lines 38 to 45)
  reads the name its closure captured; \<^verbatim>\<open>handleRoommateNameBlur\<close> in
  \<^verbatim>\<open>page.js\<close> (lines 71 to 78) reads the name of the current render.
\<close>

definition call_fetchRoommateData :: "string \<Rightarrow> world \<Rightarrow> world" where
  "call_fetchRoommateData name w = w\<lparr>inflight := inflight w @ [FetchRoommateData name]\<rparr>"

definition debounce_callback :: "string \<Rightarrow> world \<Rightarrow> world" where
  "debounce_callback name w =
     (if trim name \<noteq> [] then call_fetchRoommateData (trim name) w
      else setPreferences Map.empty (setRoommateId None w))"

definition handleRoommateNameBlur :: "world \<Rightarrow> world" where
  "handleRoommateNameBlur w =
     (if trim (roommateName (ui w)) \<noteq> [] then call_fetchRoommateData (trim (roommateName (ui w))) w
      else setPreferences Map.empty (setRoommateId None w))"

text \<open>\<^verbatim>\<open>handlePreferenceChange\<close>, the same in both files.\<close>

definition handlePreferenceChange :: "nat \<Rightarrow> jsval \<Rightarrow> world \<Rightarrow> world" where
  "handlePreferenceChange choreId score w =
     setPreferences ((preferences (ui w))(choreId \<mapsto> score)) w"

section \<open>Submitting\<close>

text \<open>The rows built by \<^verbatim>\<open>chores.map(..)\<close>, one per chore of the catalog.\<close>

definition preferencesData :: "ident \<Rightarrow> chore list \<Rightarrow> (nat \<rightharpoonup> jsval) \<Rightarrow> preference list" where
  "preferencesData currentRoommateId cs prefs =
     map (\<lambda>chore. \<lparr>roommate_id = currentRoommateId,
                    chore_id = chore_ident chore,
                    preference_score = score_or_default (prefs (chore_ident chore))\<rparr>) cs"


text \<open>The \<^verbatim>\<open>catch\<close> block and the \<^verbatim>\<open>finally\<close> block of \<^verbatim>\<open>handleSubmit\<close>.\<close>

definition submit_catch :: "world \<Rightarrow> world" where
  "submit_catch w = alert ''An error occurred while saving preferences.'' (console_error ''Error:'' w)"

definition submit_finally :: "world \<Rightarrow> world" where
  "submit_finally w = setLoading False w"

text \<open>
  The body of \<^verbatim>\<open>if (!currentRoommateId)\<close> in \<^verbatim>\<open>App.js\<close> (lines 109 to 136): the
  name is looked up, and inserted only when no row has it. \<open>w\<close> is the live world,
  \<open>Inl\<close> the thrown error.
\<close>

definition find_or_insert_roommate ::
    "faults \<Rightarrow> string \<Rightarrow> world \<Rightarrow> db_error + (ident \<times> world)" where
  "find_or_insert_roommate f trimmedName w =
     (case maybeSingle (roommates_select_fails f) (roommates_eq_name trimmedName (db w)) of
        Inl fetchError \<Rightarrow> Inl fetchError
      | Inr (Some existingRoommate) \<Rightarrow>
          Inr (roommate_ident existingRoommate,
               setRoommateId (Some (roommate_ident existingRoommate)) w)
      | Inr None \<Rightarrow>
          (case insert_roommate (roommates_insert_fails f) trimmedName (db w) of
             Inl roommateError \<Rightarrow> Inl roommateError
           | Inr (roommateData, db') \<Rightarrow>
               Inr (roommate_ident roommateData,
                    setRoommateId (Some (roommate_ident roommateData)) (w\<lparr>db := db'\<rparr>))))"

text \<open>
  The body of \<^verbatim>\<open>if (!currentRoommateId)\<close> in \<^verbatim>\<open>page.js\<close> (lines 95 to 105): the
  name of the render is inserted, with no lookup.
\<close>

definition insert_new_roommate ::
    "faults \<Rightarrow> string \<Rightarrow> world \<Rightarrow> db_error + (ident \<times> world)" where
  "insert_new_roommate f name w =
     (case insert_roommate (roommates_insert_fails f) name (db w) of
        Inl roommateError \<Rightarrow> Inl roommateError
      | Inr (roommateData, db') \<Rightarrow>
          Inr (roommate_ident roommateData,
               setRoommateId (Some (roommate_ident roommateData)) (w\<lparr>db := db'\<rparr>)))"

text \<open>
  The first half of the \<^verbatim>\<open>try\<close> block, which settles \<^verbatim>\<open>currentRoommateId\<close>:
  lines 102 to 137 of \<^verbatim>\<open>App.js\<close> and lines 91 to 106 of \<^verbatim>\<open>page.js\<close>. \<open>c\<close> is
  the captured render state, \<open>w\<close> the live world. The id of the render is kept when it
  is neither \<^verbatim>\<open>null\<close> nor 0; otherwise the body of the \<^verbatim>\<open>if\<close> runs.
\<close>

definition getOrCreate_App :: "faults \<Rightarrow> session \<Rightarrow> world \<Rightarrow> db_error + (ident \<times> world)" where
  "getOrCreate_App f c w =
     (let trimmedName = trim (roommateName c)
      in case roommateId c of
           None \<Rightarrow> find_or_insert_roommate f trimmedName w
         | Some currentRoommateId \<Rightarrow>
             if currentRoommateId = 0 then find_or_insert_roommate f trimmedName w
             else Inr (currentRoommateId, w))"

definition getOrCreate_page :: "faults \<Rightarrow> session \<Rightarrow> world \<Rightarrow> db_error + (ident \<times> world)" where
  "getOrCreate_page f c w =
     (case roommateId c of
        None \<Rightarrow> insert_new_roommate f (roommateName c) w
      | Some currentRoommateId \<Rightarrow>
          if currentRoommateId = 0 then insert_new_roommate f (roommateName c) w
          else Inr (currentRoommateId, w))"

text \<open>
  The second half of the \<^verbatim>\<open>try\<close> block: the rows are built and upserted in one
  request, with the conflict target the file names (\<^verbatim>\<open>App.js\<close>) or none
  (\<^verbatim>\<open>page.js\<close>), and the success notice is shown.
\<close>

definition savePreferences ::
    "faults \<Rightarrow> conflict_target \<Rightarrow> session \<Rightarrow> ident \<Rightarrow> world \<Rightarrow> db_error + world" where
  "savePreferences f target c currentRoommateId w =
     (case upsert_preferences (preferences_upsert_fails f) target
             (preferencesData currentRoommateId (chores c) (preferences c)) (db w) of
        Inl preferencesError \<Rightarrow> Inl preferencesError
      | Inr db' \<Rightarrow> Inr (alert ''Preferences saved successfully!'' (w\<lparr>db := db'\<rparr>)))"

text \<open>
  The \<^verbatim>\<open>try\<close>/\<^verbatim>\<open>catch\<close>/\<^verbatim>\<open>finally\<close> statement of \<^verbatim>\<open>handleSubmit\<close>. A state
  change made before an error is thrown stays: the \<^verbatim>\<open>catch\<close> block runs on the world
  as it is when the error is thrown.
\<close>

definition handleSubmit_try_App :: "faults \<Rightarrow> session \<Rightarrow> world \<Rightarrow> world" where
  "handleSubmit_try_App f c w =
     submit_finally
       (case getOrCreate_App f c w of
          Inl e \<Rightarrow> submit_catch w
        | Inr (currentRoommateId, w1) \<Rightarrow>
            (case savePreferences f OnConflict_roommate_id_chore_id c currentRoommateId w1 of
               Inl e \<Rightarrow> submit_catch w1
             | Inr w2 \<Rightarrow> w2))"

definition handleSubmit_try_page :: "faults \<Rightarrow> session \<Rightarrow> world \<Rightarrow> world" where
  "handleSubmit_try_page f c w =
     submit_finally
       (case getOrCreate_page f c w of
          Inl e \<Rightarrow> submit_catch w
        | Inr (currentRoommateId, w1) \<Rightarrow>
            (case savePreferences f OnConflict_primary_key c currentRoommateId w1 of
               Inl e \<Rightarrow> submit_catch w1
             | Inr w2 \<Rightarrow> w2))"

text \<open>
  \<^verbatim>\<open>handleSubmit\<close> run from start to end with no other event in between: the closure
  is the render state at the call, \<^verbatim>\<open>setLoading(true)\<close> comes first.
\<close>

definition handleSubmit_App :: "faults \<Rightarrow> world \<Rightarrow> world" where
  "handleSubmit_App f w = handleSubmit_try_App f (ui w) (setLoading True w)"

definition handleSubmit_page :: "faults \<Rightarrow> world \<Rightarrow> world" where
  "handleSubmit_page f w = handleSubmit_try_page f (ui w) (setLoading True w)"

text \<open>The \<^verbatim>\<open>disabled\<close> attribute of the submit button.\<close>

definition submit_disabled :: "session \<Rightarrow> bool" where
  "submit_disabled s = (loading s \<or> trim (roommateName s) = [])"

section \<open>Events\<close>

text \<open>
  The component runs on one thread: an event handler or the continuation of an answered
  remote call runs to its end before the next one starts. An event is a user action, the
  debounce timer firing, or the answer to the remote calls of the asynchronous function at
  position \<open>i\<close> of \<open>inflight\<close>, with the outcomes the environment chose. Answers arrive in
  any order. The remote calls of one asynchronous function are answered together.
\<close>

datatype event =
    Type string
  | Timeout
  | Blur
  | Select nat int
  | Submit
  | Response nat faults

definition drop_task :: "nat \<Rightarrow> world \<Rightarrow> world" where
  "drop_task i w = w\<lparr>inflight := take i (inflight w) @ drop (Suc i) (inflight w)\<rparr>"

text \<open>
  Calling \<^verbatim>\<open>handleSubmit\<close>: \<^verbatim>\<open>setLoading(true)\<close> runs at once, the
  \<^verbatim>\<open>try\<close> statement when the remote calls are answered.
\<close>

definition call_handleSubmit :: "world \<Rightarrow> world" where
  "call_handleSubmit w = (setLoading True w)\<lparr>inflight := inflight w @ [HandleSubmit (ui w)]\<rparr>"

definition resume_App :: "faults \<Rightarrow> task \<Rightarrow> world \<Rightarrow> world" where
  "resume_App f t w =
     (case t of
        FetchChores \<Rightarrow> fetchChores f w
      | FetchRoommateData name \<Rightarrow> fetchRoommateData_App f name w
      | HandleSubmit c \<Rightarrow> handleSubmit_try_App f c w)"

definition resume_page :: "faults \<Rightarrow> task \<Rightarrow> world \<Rightarrow> world" where
  "resume_page f t w =
     (case t of
        FetchChores \<Rightarrow> fetchChores f w
      | FetchRoommateData name \<Rightarrow> fetchRoommateData_page f name w
      | HandleSubmit c \<Rightarrow> handleSubmit_try_page f c w)"

text \<open>
  \<^verbatim>\<open>App.js\<close>. A change of the name re-runs the effect of lines 33 to 46, which clears
  the pending timer and sets a new one for the new name. The form cannot be submitted
  while the button is disabled.
\<close>

fun step_App :: "event \<Rightarrow> world \<Rightarrow> world" where
  "step_App (Type n) w =
     (if n = roommateName (ui w) then w else (setRoommateName n w)\<lparr>timer := Some n\<rparr>)"
| "step_App Timeout w =
     (case timer w of None \<Rightarrow> w | Some n \<Rightarrow> debounce_callback n (w\<lparr>timer := None\<rparr>))"
| "step_App Blur w = w"
| "step_App (Select choreId v) w = handlePreferenceChange choreId (Num v) w"
| "step_App Submit w = (if submit_disabled (ui w) then w else call_handleSubmit w)"
| "step_App (Response i f) w =
     (if i < length (inflight w) then resume_App f (inflight w ! i) (drop_task i w) else w)"

text \<open>\<^verbatim>\<open>page.js\<close>: no timer; the name is resolved when the field loses focus.\<close>

fun step_page :: "event \<Rightarrow> world \<Rightarrow> world" where
  "step_page (Type n) w = setRoommateName n w"
| "step_page Timeout w = w"
| "step_page Blur w = handleRoommateNameBlur w"
| "step_page (Select choreId v) w = handlePreferenceChange choreId (Num v) w"
| "step_page Submit w = (if submit_disabled (ui w) then w else call_handleSubmit w)"
| "step_page (Response i f) w =
     (if i < length (inflight w) then resume_page f (inflight w ! i) (drop_task i w) else w)"

definition run_App :: "event list \<Rightarrow> world \<Rightarrow> world" where
  "run_App evs w = foldl (\<lambda>w e. step_App e w) w evs"

definition run_page :: "event list \<Rightarrow> world \<Rightarrow> world" where
  "run_page evs w = foldl (\<lambda>w e. step_page e w) w evs"

text \<open>
  The component after its first render: the initial values of the state variables, the
  catalog being fetched and, in \<^verbatim>\<open>App.js\<close>, the debounce timer set for the empty
  name.
\<close>

definition initial_session :: session where
  "initial_session =
     \<lparr>roommateName = [], roommateId = None, chores = [], preferences = Map.empty, loading = False\<rparr>"

definition mount_App :: "store \<Rightarrow> world" where
  "mount_App st = \<lparr>ui = initial_session, db = st, timer = Some [], inflight = [FetchChores], out = []\<rparr>"

definition mount_page :: "store \<Rightarrow> world" where
  "mount_page st = \<lparr>ui = initial_session, db = st, timer = None, inflight = [FetchChores], out = []\<rparr>"

text \<open>The number of \<^verbatim>\<open>handleSubmit\<close> calls in flight.\<close>

definition is_submit :: "task \<Rightarrow> bool" where
  "is_submit t = (case t of HandleSubmit c \<Rightarrow> True | _ \<Rightarrow> False)"

definition submits_in_flight :: "world \<Rightarrow> nat" where
  "submits_in_flight w = length (filter is_submit (inflight w))"

text \<open>The loading flag is set exactly while one \<^verbatim>\<open>handleSubmit\<close> call is in flight.\<close>

definition submit_inv :: "world \<Rightarrow> bool" where
  "submit_inv w = (submits_in_flight w = (if loading (ui w) then 1 else 0))"

text \<open>How a submit ended, read from the notices it added.\<close>

definition saved :: "world \<Rightarrow> world \<Rightarrow> bool" where
  "saved w w' = (out w' = out w @ [Alert ''Preferences saved successfully!''])"

definition submit_failed :: "world \<Rightarrow> world \<Rightarrow> bool" where
  "submit_failed w w' =
     (out w' = out w @ [ConsoleError ''Error:'', Alert ''An error occurred while saving preferences.''])"

text \<open>What the identity step returns: the id, and the roommates stored afterwards.\<close>

definition identity_result :: "db_error + (ident \<times> world) \<Rightarrow> db_error + (ident \<times> roommate list)" where
  "identity_result r =
     (case r of Inl e \<Rightarrow> Inl e | Inr (i, w) \<Rightarrow> Inr (i, roommates_table (db w)))"

section \<open>Example data\<close>

definition no_faults :: faults where
  "no_faults = \<lparr>chores_select_fails = False, roommates_select_fails = False,
                 roommates_insert_fails = False, preferences_select_fails = False,
                 preferences_upsert_fails = False\<rparr>"

definition dishes :: chore where
  "dishes = \<lparr>chore_ident = 1, chore_name = ''Dishes''\<rparr>"

definition trash :: chore where
  "trash = \<lparr>chore_ident = 2, chore_name = ''Trash''\<rparr>"

text \<open>A store with the catalog of the specification's scenarios and no roommate.\<close>

definition empty_house :: store where
  "empty_house =
     \<lparr>chores_table = [dishes, trash], roommates_table = [], preferences_table = [],
      next_ident = 1, name_unique = False, pk_roommate_chore = False\<rparr>"

text \<open>A store in which Alex (id 7) and Bob (id 8) have stored preferences.\<close>

definition shared_house :: store where
  "shared_house =
     \<lparr>chores_table = [dishes, trash],
      roommates_table = [\<lparr>roommate_ident = 7, roommate_name = ''Alex''\<rparr>,
                         \<lparr>roommate_ident = 8, roommate_name = ''Bob''\<rparr>],
      preferences_table = [\<lparr>roommate_id = 7, chore_id = 1, preference_score = Num 2\<rparr>,
                           \<lparr>roommate_id = 8, chore_id = 1, preference_score = Num 5\<rparr>],
      next_ident = 9, name_unique = True, pk_roommate_chore = False\<rparr>"

text \<open>A session in which the name Alex has been typed and not resolved.\<close>

definition alex_typed :: "store \<Rightarrow> world" where
  "alex_typed st =
     \<lparr>ui = \<lparr>roommateName = ''Alex'', roommateId = None, chores = [dishes, trash],
             preferences = [1 \<mapsto> Num 4], loading = False\<rparr>,
      db = st, timer = None, inflight = [], out = []\<rparr>"

text \<open>A session in which Alex has been resolved to id 7.\<close>

definition alex_resolved :: "store \<Rightarrow> world" where
  "alex_resolved st =
     \<lparr>ui = \<lparr>roommateName = ''Alex'', roommateId = Some 7, chores = [dishes, trash],
             preferences = [1 \<mapsto> Num 5, 2 \<mapsto> Num 0], loading = False\<rparr>,
      db = st, timer = None, inflight = [], out = []\<rparr>"

text \<open>The session of \<open>alex_typed empty_house\<close> after Alex has been inserted with id 1.\<close>

definition alex_inserted :: world where
  "alex_inserted =
     \<lparr>ui = \<lparr>roommateName = ''Alex'', roommateId = Some 1, chores = [dishes, trash],
             preferences = [1 \<mapsto> Num 4], loading = False\<rparr>,
      db = empty_house\<lparr>roommates_table := [\<lparr>roommate_ident = 1, roommate_name = ''Alex''\<rparr>],
                        next_ident := 2\<rparr>,
      timer = None, inflight = [], out = []\<rparr>"



definition preferences_unavailable :: faults where
  "preferences_unavailable = no_faults\<lparr>preferences_select_fails := True\<rparr>"

definition roommates_unavailable :: faults where
  "roommates_unavailable = no_faults\<lparr>roommates_select_fails := True\<rparr>"

definition upsert_unavailable :: faults where
  "upsert_unavailable = no_faults\<lparr>preferences_upsert_fails := True\<rparr>"

text \<open>
  A run of \<^verbatim>\<open>App.js\<close>: the catalog arrives, Alex is typed and the timer fires, Bob is
  typed and the timer fires, and the lookup for Bob is answered first.
\<close>

definition race_newer_done :: "event list" where
  "race_newer_done =
     [Response 0 no_faults, Type ''Alex'', Timeout, Type ''Bob'', Timeout, Response 1 no_faults]"

section \<open>Projections of the setters\<close>

lemma ui_setters [simp]:
  "ui (setRoommateName n w) = (ui w)\<lparr>roommateName := n\<rparr>"
  "ui (setRoommateId i w) = (ui w)\<lparr>roommateId := i\<rparr>"
  "ui (setChores cs w) = (ui w)\<lparr>chores := cs\<rparr>"
  "ui (setPreferences m w) = (ui w)\<lparr>preferences := m\<rparr>"
  "ui (setLoading b w) = (ui w)\<lparr>loading := b\<rparr>"
  "ui (alert msg w) = ui w"
  "ui (console_error msg w) = ui w"
  by (simp_all add: setRoommateName_def setRoommateId_def setChores_def setPreferences_def
      setLoading_def alert_def console_error_def)

lemma db_setters [simp]:
  "db (setRoommateName n w) = db w"
  "db (setRoommateId i w) = db w"
  "db (setChores cs w) = db w"
  "db (setPreferences m w) = db w"
  "db (setLoading b w) = db w"
  "db (alert msg w) = db w"
  "db (console_error msg w) = db w"
  by (simp_all add: setRoommateName_def setRoommateId_def setChores_def setPreferences_def
      setLoading_def alert_def console_error_def)

lemma out_setters [simp]:
  "out (setRoommateName n w) = out w"
  "out (setRoommateId i w) = out w"
  "out (setChores cs w) = out w"
  "out (setPreferences m w) = out w"
  "out (setLoading b w) = out w"
  "out (alert msg w) = out w @ [Alert msg]"
  "out (console_error msg w) = out w @ [ConsoleError msg]"
  by (simp_all add: setRoommateName_def setRoommateId_def setChores_def setPreferences_def
      setLoading_def alert_def console_error_def)

lemma inflight_setters [simp]:
  "inflight (setRoommateName n w) = inflight w"
  "inflight (setRoommateId i w) = inflight w"
  "inflight (setChores cs w) = inflight w"
  "inflight (setPreferences m w) = inflight w"
  "inflight (setLoading b w) = inflight w"
  "inflight (alert msg w) = inflight w"
  "inflight (console_error msg w) = inflight w"
  by (simp_all add: setRoommateName_def setRoommateId_def setChores_def setPreferences_def
      setLoading_def alert_def console_error_def)

lemma timer_setters [simp]:
  "timer (setRoommateName n w) = timer w"
  "timer (setRoommateId i w) = timer w"
  "timer (setChores cs w) = timer w"
  "timer (setPreferences m w) = timer w"
  "timer (setLoading b w) = timer w"
  "timer (alert msg w) = timer w"
  "timer (console_error msg w) = timer w"
  by (simp_all add: setRoommateName_def setRoommateId_def setChores_def setPreferences_def
      setLoading_def alert_def console_error_def)

lemma inflight_drop_task [simp]:
  "inflight (drop_task i w) = take i (inflight w) @ drop (Suc i) (inflight w)"
  "ui (drop_task i w) = ui w" "db (drop_task i w) = db w" "out (drop_task i w) = out w"
  "timer (drop_task i w) = timer w"
  by (simp_all add: drop_task_def)

lemma trim_blank: "trim ''  '' = []"
  by (simp add: trim_def is_space_def)

lemma trim_Alex: "trim ''Alex'' = ''Alex''" "trim ''Bob'' = ''Bob''" "trim '' Alex '' = ''Alex''"
  by (simp_all add: trim_def is_space_def)

lemma single_simps:
  "single True rows = Inl Unavailable"
  "single False [] = Inl PGRST116"
  "single False [r] = Inr r"
  by (simp_all add: single_def)

lemma shared_house_Alex: "roommates_eq_name (trim ''Alex'') shared_house = [\<lparr>roommate_ident = 7, roommate_name = ''Alex''\<rparr>]"
  "roommates_eq_name (trim ''Carol'') shared_house = []"
  by (simp_all add: trim_def is_space_def roommates_eq_name_def shared_house_def)

section \<open>The ways a submit ends\<close>

lemma maybeSingle_Some:
  "maybeSingle fails rows = Inr (Some r) \<Longrightarrow> rows = [r]"
  by (auto simp: maybeSingle_def split: if_splits list.splits)

lemma maybeSingle_None:
  "maybeSingle fails rows = Inr None \<Longrightarrow> rows = []"
  by (auto simp: maybeSingle_def split: if_splits list.splits)

lemma roommates_eq_name_single:
  "roommates_eq_name n st = [r] \<Longrightarrow> r \<in> set (roommates_table st) \<and> roommate_name r = n"
proof -
  assume a: "roommates_eq_name n st = [r]"
  have "r \<in> set (roommates_eq_name n st)" by (simp add: a)
  then show ?thesis by (simp add: roommates_eq_name_def)
qed

lemma insert_roommate_Inr:
  "insert_roommate fails n st = Inr (r, st') \<Longrightarrow>
   r = \<lparr>roommate_ident = next_ident st, roommate_name = n\<rparr> \<and>
   st' = st\<lparr>roommates_table := roommates_table st @ [r], next_ident := Suc (next_ident st)\<rparr>"
  by (auto simp: insert_roommate_def Let_def split: if_splits)

text \<open>The identity step at an id that is present, and at one that is not.\<close>

lemma getOrCreate_truthy:
  assumes "truthy_id (roommateId c)"
  obtains j where "roommateId c = Some j" "j \<noteq> 0"
    "getOrCreate_App f c w = Inr (j, w)" "getOrCreate_page f c w = Inr (j, w)"
proof (cases "roommateId c")
  case None
  with assms show thesis by (simp add: truthy_id_def)
next
  case (Some j)
  with assms have "j \<noteq> 0" by (simp add: truthy_id_def)
  with Some show thesis
    by (intro that [of j]) (simp_all add: getOrCreate_App_def getOrCreate_page_def)
qed

lemma getOrCreate_falsy:
  assumes "\<not> truthy_id (roommateId c)"
  shows "getOrCreate_App f c w = find_or_insert_roommate f (trim (roommateName c)) w"
    and "getOrCreate_page f c w = insert_new_roommate f (roommateName c) w"
  using assms
  by (cases "roommateId c"; simp add: truthy_id_def getOrCreate_App_def getOrCreate_page_def)+

text \<open>What a successful lookup or insert leaves behind.\<close>

lemma find_or_insert_roommate_Inr:
  assumes "find_or_insert_roommate f n w = Inr (i, w1)"
  shows "out w1 = out w" "inflight w1 = inflight w" "timer w1 = timer w"
    "ui w1 = (ui w)\<lparr>roommateId := Some i\<rparr>"
    "preferences_table (db w1) = preferences_table (db w)"
    "chores_table (db w1) = chores_table (db w)"
    "pk_roommate_chore (db w1) = pk_roommate_chore (db w)"
    "name_unique (db w1) = name_unique (db w)"
    "roommates_table (db w1) = roommates_table (db w) \<or>
     roommates_table (db w1) = roommates_table (db w) @ [\<lparr>roommate_ident = i, roommate_name = n\<rparr>]"
    "\<exists>r. roommates_eq_name n (db w1) = [r] \<and> roommate_ident r = i"
proof -
  show "out w1 = out w" "inflight w1 = inflight w" "timer w1 = timer w"
    "ui w1 = (ui w)\<lparr>roommateId := Some i\<rparr>"
    "preferences_table (db w1) = preferences_table (db w)"
    "chores_table (db w1) = chores_table (db w)"
    "pk_roommate_chore (db w1) = pk_roommate_chore (db w)"
    "name_unique (db w1) = name_unique (db w)"
    using assms
    by (auto simp: find_or_insert_roommate_def dest!: insert_roommate_Inr
        split: option.splits sum.splits prod.splits)
  show "roommates_table (db w1) = roommates_table (db w) \<or>
     roommates_table (db w1) = roommates_table (db w) @ [\<lparr>roommate_ident = i, roommate_name = n\<rparr>]"
    using assms
    by (auto simp: find_or_insert_roommate_def dest!: insert_roommate_Inr
        split: option.splits sum.splits prod.splits)
  show "\<exists>r. roommates_eq_name n (db w1) = [r] \<and> roommate_ident r = i"
    using assms
    by (auto simp: find_or_insert_roommate_def roommates_eq_name_def
        dest!: insert_roommate_Inr maybeSingle_Some maybeSingle_None
        split: option.splits sum.splits prod.splits)
qed

lemma insert_new_roommate_Inr:
  assumes "insert_new_roommate f n w = Inr (i, w1)"
  shows "out w1 = out w" "inflight w1 = inflight w" "timer w1 = timer w"
    "ui w1 = (ui w)\<lparr>roommateId := Some i\<rparr>"
    "preferences_table (db w1) = preferences_table (db w)"
    "chores_table (db w1) = chores_table (db w)"
    "pk_roommate_chore (db w1) = pk_roommate_chore (db w)"
    "name_unique (db w1) = name_unique (db w)"
    "roommates_table (db w1) = roommates_table (db w) @ [\<lparr>roommate_ident = i, roommate_name = n\<rparr>]"
  using assms
  by (auto simp: insert_new_roommate_def dest!: insert_roommate_Inr
      split: sum.splits prod.splits)

text \<open>What a successful identity step leaves behind.\<close>

lemma getOrCreate_App_Inr:
  assumes "getOrCreate_App f c w = Inr (i, w1)"
  shows "out w1 = out w" "inflight w1 = inflight w" "timer w1 = timer w"
    "ui w1 = (if truthy_id (roommateId c) then ui w else (ui w)\<lparr>roommateId := Some i\<rparr>)"
    "truthy_id (roommateId c) \<Longrightarrow> roommateId c = Some i \<and> w1 = w"
    "preferences_table (db w1) = preferences_table (db w)"
    "chores_table (db w1) = chores_table (db w)"
    "pk_roommate_chore (db w1) = pk_roommate_chore (db w)"
    "name_unique (db w1) = name_unique (db w)"
    "roommates_table (db w1) = roommates_table (db w) \<or>
     roommates_table (db w1) = roommates_table (db w) @
        [\<lparr>roommate_ident = i, roommate_name = trim (roommateName c)\<rparr>]"
    "\<not> truthy_id (roommateId c) \<Longrightarrow>
       \<exists>r. roommates_eq_name (trim (roommateName c)) (db w1) = [r] \<and> roommate_ident r = i"
proof -
  have t: "roommateId c = Some i \<and> w1 = w" if "truthy_id (roommateId c)"
    using getOrCreate_truthy [OF that, of f w] assms by (metis Pair_inject sum.inject(2))
  have n: "find_or_insert_roommate f (trim (roommateName c)) w = Inr (i, w1)"
    if "\<not> truthy_id (roommateId c)"
    using getOrCreate_falsy(1) [OF that, of f w] assms by simp
  note r = find_or_insert_roommate_Inr
  show "truthy_id (roommateId c) \<Longrightarrow> roommateId c = Some i \<and> w1 = w" by (rule t)
  show "\<not> truthy_id (roommateId c) \<Longrightarrow>
       \<exists>r. roommates_eq_name (trim (roommateName c)) (db w1) = [r] \<and> roommate_ident r = i"
    by (rule r(10) [OF n])
  show "out w1 = out w" "inflight w1 = inflight w" "timer w1 = timer w"
    "preferences_table (db w1) = preferences_table (db w)"
    "chores_table (db w1) = chores_table (db w)"
    "pk_roommate_chore (db w1) = pk_roommate_chore (db w)"
    "name_unique (db w1) = name_unique (db w)"
    using t r(1-3,5-8) [OF n] by (cases "truthy_id (roommateId c)"; simp)+
  show "ui w1 = (if truthy_id (roommateId c) then ui w else (ui w)\<lparr>roommateId := Some i\<rparr>)"
    using t r(4) [OF n] by (cases "truthy_id (roommateId c)") simp_all
  show "roommates_table (db w1) = roommates_table (db w) \<or>
     roommates_table (db w1) = roommates_table (db w) @
        [\<lparr>roommate_ident = i, roommate_name = trim (roommateName c)\<rparr>]"
    using t r(9) [OF n] by (cases "truthy_id (roommateId c)") simp_all
qed

lemma getOrCreate_page_Inr:
  assumes "getOrCreate_page f c w = Inr (i, w1)"
  shows "out w1 = out w" "inflight w1 = inflight w" "timer w1 = timer w"
    "ui w1 = (if truthy_id (roommateId c) then ui w else (ui w)\<lparr>roommateId := Some i\<rparr>)"
    "truthy_id (roommateId c) \<Longrightarrow> roommateId c = Some i \<and> w1 = w"
    "preferences_table (db w1) = preferences_table (db w)"
    "chores_table (db w1) = chores_table (db w)"
    "pk_roommate_chore (db w1) = pk_roommate_chore (db w)"
    "name_unique (db w1) = name_unique (db w)"
    "roommates_table (db w1) = roommates_table (db w) \<or>
     roommates_table (db w1) = roommates_table (db w) @
        [\<lparr>roommate_ident = i, roommate_name = roommateName c\<rparr>]"
    "\<not> truthy_id (roommateId c) \<Longrightarrow>
       roommates_table (db w1) = roommates_table (db w) @
        [\<lparr>roommate_ident = i, roommate_name = roommateName c\<rparr>]"
proof -
  have t: "roommateId c = Some i \<and> w1 = w" if "truthy_id (roommateId c)"
    using getOrCreate_truthy [OF that, of f w] assms by (metis Pair_inject sum.inject(2))
  have n: "insert_new_roommate f (roommateName c) w = Inr (i, w1)"
    if "\<not> truthy_id (roommateId c)"
    using getOrCreate_falsy(2) [OF that, of f w] assms by simp
  note r = insert_new_roommate_Inr
  show "truthy_id (roommateId c) \<Longrightarrow> roommateId c = Some i \<and> w1 = w" by (rule t)
  show "\<not> truthy_id (roommateId c) \<Longrightarrow>
       roommates_table (db w1) = roommates_table (db w) @
        [\<lparr>roommate_ident = i, roommate_name = roommateName c\<rparr>]"
    by (rule r(9) [OF n])
  show "out w1 = out w" "inflight w1 = inflight w" "timer w1 = timer w"
    "preferences_table (db w1) = preferences_table (db w)"
    "chores_table (db w1) = chores_table (db w)"
    "pk_roommate_chore (db w1) = pk_roommate_chore (db w)"
    "name_unique (db w1) = name_unique (db w)"
    using t r(1-3,5-8) [OF n] by (cases "truthy_id (roommateId c)"; simp)+
  show "ui w1 = (if truthy_id (roommateId c) then ui w else (ui w)\<lparr>roommateId := Some i\<rparr>)"
    using t r(4) [OF n] by (cases "truthy_id (roommateId c)") simp_all
  show "roommates_table (db w1) = roommates_table (db w) \<or>
     roommates_table (db w1) = roommates_table (db w) @
        [\<lparr>roommate_ident = i, roommate_name = roommateName c\<rparr>]"
    using t r(9) [OF n] by (cases "truthy_id (roommateId c)") simp_all
qed

lemma getOrCreate_Inl:
  "getOrCreate_App f c w = Inl e \<Longrightarrow> \<not> truthy_id (roommateId c)"
  "getOrCreate_page f c w = Inl e \<Longrightarrow> \<not> truthy_id (roommateId c)"
  by (auto elim!: getOrCreate_truthy [where c = c and f = f and w = w])

lemma savePreferences_Inr:
  "savePreferences f t c i w = Inr w2 \<Longrightarrow>
   \<exists>db'. upsert_preferences (preferences_upsert_fails f) t
           (preferencesData i (chores c) (preferences c)) (db w) = Inr db' \<and>
         w2 = alert ''Preferences saved successfully!'' (w\<lparr>db := db'\<rparr>)"
  by (auto simp: savePreferences_def split: sum.splits)

text \<open>The three ways a submit ends.\<close>

lemma handleSubmit_try_App_cases:
  obtains
    (identity_failed) e where "getOrCreate_App f c w = Inl e"
      "handleSubmit_try_App f c w = submit_finally (submit_catch w)"
  | (save_failed) i w1 e where "getOrCreate_App f c w = Inr (i, w1)"
      "savePreferences f OnConflict_roommate_id_chore_id c i w1 = Inl e"
      "handleSubmit_try_App f c w = submit_finally (submit_catch w1)"
  | (saved) i w1 w2 where "getOrCreate_App f c w = Inr (i, w1)"
      "savePreferences f OnConflict_roommate_id_chore_id c i w1 = Inr w2"
      "handleSubmit_try_App f c w = submit_finally w2"
proof (cases "getOrCreate_App f c w")
  case (Inl e)
  then show thesis
    by (intro identity_failed [of e]) (simp_all add: handleSubmit_try_App_def)
next
  case (Inr p)
  obtain i w1 where p: "p = (i, w1)" by (cases p)
  show thesis
  proof (cases "savePreferences f OnConflict_roommate_id_chore_id c i w1")
    case (Inl e)
    with Inr p show thesis
      by (intro save_failed [of i w1 e]) (simp_all add: handleSubmit_try_App_def)
  next
    case (Inr w2)
    with \<open>getOrCreate_App f c w = Inr p\<close> p show thesis
      by (intro saved [of i w1 w2]) (simp_all add: handleSubmit_try_App_def)
  qed
qed

lemma handleSubmit_try_page_cases:
  obtains
    (identity_failed) e where "getOrCreate_page f c w = Inl e"
      "handleSubmit_try_page f c w = submit_finally (submit_catch w)"
  | (save_failed) i w1 e where "getOrCreate_page f c w = Inr (i, w1)"
      "savePreferences f OnConflict_primary_key c i w1 = Inl e"
      "handleSubmit_try_page f c w = submit_finally (submit_catch w1)"
  | (saved) i w1 w2 where "getOrCreate_page f c w = Inr (i, w1)"
      "savePreferences f OnConflict_primary_key c i w1 = Inr w2"
      "handleSubmit_try_page f c w = submit_finally w2"
proof (cases "getOrCreate_page f c w")
  case (Inl e)
  then show thesis
    by (intro identity_failed [of e]) (simp_all add: handleSubmit_try_page_def)
next
  case (Inr p)
  obtain i w1 where p: "p = (i, w1)" by (cases p)
  show thesis
  proof (cases "savePreferences f OnConflict_primary_key c i w1")
    case (Inl e)
    with Inr p show thesis
      by (intro save_failed [of i w1 e]) (simp_all add: handleSubmit_try_page_def)
  next
    case (Inr w2)
    with \<open>getOrCreate_page f c w = Inr p\<close> p show thesis
      by (intro saved [of i w1 w2]) (simp_all add: handleSubmit_try_page_def)
  qed
qed

lemma maybeSingle_simps:
  "maybeSingle True rows = Inl Unavailable"
  "maybeSingle False [] = Inr None"
  "maybeSingle False [r] = Inr (Some r)"
  by (simp_all add: maybeSingle_def)

section \<open>A submit with no other event in between\<close>

text \<open>
  \<open>handleSubmit_App\<close> and \<open>handleSubmit_page\<close> are the runs in which the form is
  submitted and the remote calls of the submit are answered before any other event.
\<close>

lemma handleSubmit_is_run:
  assumes "\<not> submit_disabled (ui w)"
  shows "run_App [Submit, Response (length (inflight w)) f] w = handleSubmit_App f w"
    and "run_page [Submit, Response (length (inflight w)) f] w = handleSubmit_page f w"
proof -
  have "drop_task (length (inflight w)) (call_handleSubmit w) = setLoading True w"
    by (simp add: drop_task_def call_handleSubmit_def setLoading_def)
  moreover have "inflight (call_handleSubmit w) ! length (inflight w) = HandleSubmit (ui w)"
    by (simp add: call_handleSubmit_def)
  moreover have "length (inflight w) < length (inflight (call_handleSubmit w))"
    by (simp add: call_handleSubmit_def)
  ultimately show "run_App [Submit, Response (length (inflight w)) f] w = handleSubmit_App f w"
    and "run_page [Submit, Response (length (inflight w)) f] w = handleSubmit_page f w"
    using assms
    by (simp_all add: run_App_def run_page_def resume_App_def resume_page_def
        handleSubmit_App_def handleSubmit_page_def)
qed

section \<open>Editing a preference\<close>

text \<open>
  C10. For every chore id \<open>c\<close> and score \<open>s\<close>, \<open>handlePreferenceChange c s\<close> sets the
  entry of \<open>c\<close> in the preference map to \<open>s\<close> and leaves the entry of every other chore,
  the resolved identity and the current name unchanged (and also the catalog, the loading
  flag, the store, the timer, the calls in flight and the notices).
\<close>

theorem handlePreferenceChange_frame:
  "preferences (ui (handlePreferenceChange c s w)) c = Some s \<and>
   (\<forall>c'. c' \<noteq> c \<longrightarrow>
      preferences (ui (handlePreferenceChange c s w)) c' = preferences (ui w) c') \<and>
   roommateId (ui (handlePreferenceChange c s w)) = roommateId (ui w) \<and>
   roommateName (ui (handlePreferenceChange c s w)) = roommateName (ui w) \<and>
   chores (ui (handlePreferenceChange c s w)) = chores (ui w) \<and>
   loading (ui (handlePreferenceChange c s w)) = loading (ui w) \<and>
   db (handlePreferenceChange c s w) = db w \<and>
   timer (handlePreferenceChange c s w) = timer w \<and>
   inflight (handlePreferenceChange c s w) = inflight w \<and>
   out (handlePreferenceChange c s w) = out w"
  by (simp add: handlePreferenceChange_def setPreferences_def)

theorem handlePreferenceChange_frame_witness:
  "preferences (ui (handlePreferenceChange 2 (Num 3) (alex_typed empty_house))) 2 = Some (Num 3) \<and>
   (1::nat) \<noteq> 2 \<and>
   preferences (ui (handlePreferenceChange 2 (Num 3) (alex_typed empty_house))) 1 = Some (Num 4) \<and>
   roommateId (ui (handlePreferenceChange 2 (Num 3) (alex_typed empty_house))) = None \<and>
   roommateName (ui (handlePreferenceChange 2 (Num 3) (alex_typed empty_house))) = ''Alex''"
  using handlePreferenceChange_frame [of 2 "Num 3" "alex_typed empty_house"]
  by (simp add: alex_typed_def)

section \<open>The default score\<close>







section \<open>Settling the name field\<close>

text \<open>
  C7. For every name whose trimmed form is empty, settling the name field (the debounce
  timer set for that name firing in \<^verbatim>\<open>App.js\<close>, the field holding that name losing
  focus in \<^verbatim>\<open>page.js\<close>) issues no remote call and leaves no resolved identity and an
  empty preference map.
\<close>

theorem empty_name_short_circuits:
  assumes "trim name = []"
  shows "roommateId (ui (step_App Timeout (w\<lparr>timer := Some name\<rparr>))) = None \<and>
         preferences (ui (step_App Timeout (w\<lparr>timer := Some name\<rparr>))) = Map.empty \<and>
         inflight (step_App Timeout (w\<lparr>timer := Some name\<rparr>)) = inflight w \<and>
         db (step_App Timeout (w\<lparr>timer := Some name\<rparr>)) = db w \<and>
         out (step_App Timeout (w\<lparr>timer := Some name\<rparr>)) = out w \<and>
         roommateId (ui (step_page Blur (setRoommateName name w))) = None \<and>
         preferences (ui (step_page Blur (setRoommateName name w))) = Map.empty \<and>
         inflight (step_page Blur (setRoommateName name w)) = inflight w \<and>
         db (step_page Blur (setRoommateName name w)) = db w \<and>
         out (step_page Blur (setRoommateName name w)) = out w"
  using assms by (simp add: debounce_callback_def handleRoommateNameBlur_def)

theorem empty_name_short_circuits_witness:
  "trim ''  '' = [] \<and>
   roommateId (ui (step_App Timeout ((alex_resolved shared_house)\<lparr>timer := Some ''  ''\<rparr>))) = None \<and>
   preferences (ui (step_App Timeout ((alex_resolved shared_house)\<lparr>timer := Some ''  ''\<rparr>))) = Map.empty \<and>
   inflight (step_App Timeout ((alex_resolved shared_house)\<lparr>timer := Some ''  ''\<rparr>)) = [] \<and>
   roommateId (ui (step_page Blur (setRoommateName ''  '' (alex_resolved shared_house)))) = None \<and>
   preferences (ui (step_page Blur (setRoommateName ''  '' (alex_resolved shared_house)))) = Map.empty \<and>
   inflight (step_page Blur (setRoommateName ''  '' (alex_resolved shared_house))) = []"
  using empty_name_short_circuits [OF trim_blank, of "alex_resolved shared_house"] trim_blank
  by (simp add: alex_resolved_def)

section \<open>Outcomes of a resolution\<close>

text \<open>
  C6, as the claim states it, fails: when the identity is found and the fetch of its
  preferences fails, the resolved identity has already been set (\<^verbatim>\<open>App.js\<close> line 71,
  \<^verbatim>\<open>page.js\<close> line 46), so the session state is not left unchanged.
\<close>

theorem fetch_preferences_error_counterexample:
  "preferences_select_fails preferences_unavailable \<and>
   roommateId (ui (alex_typed shared_house)) = None \<and>
   roommateId (ui (fetchRoommateData_App preferences_unavailable ''Alex'' (alex_typed shared_house))) =
     Some 7 \<and>
   roommateId (ui (fetchRoommateData_page preferences_unavailable ''Alex'' (alex_typed shared_house))) =
     Some 7"
  by (simp add: preferences_unavailable_def no_faults_def alex_typed_def shared_house_def
      fetchRoommateData_App_def fetchRoommateData_page_def fetchPreferences_def trim_Alex
      roommates_eq_name_def single_simps select_preferences_def Let_def)

text \<open>
  In \<^verbatim>\<open>page.js\<close> a failed identity lookup is logged and then treated as not found.
\<close>

lemma fetchRoommateData_page_lookup_error:
  "roommates_select_fails f \<Longrightarrow>
   roommateId (ui (fetchRoommateData_page f name w)) = None \<and>
   preferences (ui (fetchRoommateData_page f name w)) = Map.empty \<and>
   out (fetchRoommateData_page f name w) = out w @ [ConsoleError ''Error fetching roommate:'']"
  by (simp add: fetchRoommateData_page_def single_simps Let_def)

text \<open>
  C6, amended. For every resolution of a name: in \<^verbatim>\<open>App.js\<close> a failed identity lookup
  leaves the session state and the store unchanged and is only logged; in both files a
  definitive not-found result clears the resolved identity and empties the preference map
  with no notice, and when the identity is found and the fetch of its preferences fails,
  the failure is only logged and the preference map is unchanged, but the resolved
  identity is the identity found.
\<close>

theorem fetchRoommateData_outcomes:
  "(roommates_select_fails f \<longrightarrow>
      ui (fetchRoommateData_App f name w) = ui w \<and>
      db (fetchRoommateData_App f name w) = db w \<and>
      out (fetchRoommateData_App f name w) = out w @ [ConsoleError ''Error fetching roommate:'']) \<and>
   (\<not> roommates_select_fails f \<and> roommates_eq_name (trim name) (db w) = [] \<longrightarrow>
      roommateId (ui (fetchRoommateData_App f name w)) = None \<and>
      preferences (ui (fetchRoommateData_App f name w)) = Map.empty \<and>
      out (fetchRoommateData_App f name w) = out w \<and>
      roommateId (ui (fetchRoommateData_page f (trim name) w)) = None \<and>
      preferences (ui (fetchRoommateData_page f (trim name) w)) = Map.empty \<and>
      out (fetchRoommateData_page f (trim name) w) = out w) \<and>
   (\<not> roommates_select_fails f \<and> roommates_eq_name (trim name) (db w) = [r] \<and>
    preferences_select_fails f \<longrightarrow>
      roommateId (ui (fetchRoommateData_App f name w)) = Some (roommate_ident r) \<and>
      preferences (ui (fetchRoommateData_App f name w)) = preferences (ui w) \<and>
      out (fetchRoommateData_App f name w) = out w @ [ConsoleError ''Error fetching preferences:''] \<and>
      roommateId (ui (fetchRoommateData_page f (trim name) w)) = Some (roommate_ident r) \<and>
      preferences (ui (fetchRoommateData_page f (trim name) w)) = preferences (ui w) \<and>
      out (fetchRoommateData_page f (trim name) w) = out w @ [ConsoleError ''Error fetching preferences:''])"
  by (simp add: fetchRoommateData_App_def fetchRoommateData_page_def fetchPreferences_def
      single_simps select_preferences_def Let_def)

theorem fetchRoommateData_outcomes_witness:
  "roommates_select_fails roommates_unavailable \<and>
   roommateId (ui (fetchRoommateData_App roommates_unavailable ''Alex'' (alex_resolved shared_house))) = Some 7 \<and>
   out (fetchRoommateData_App roommates_unavailable ''Alex'' (alex_resolved shared_house)) =
     [ConsoleError ''Error fetching roommate:''] \<and>
   roommates_eq_name (trim ''Carol'') (db (alex_resolved shared_house)) = [] \<and>
   roommateId (ui (fetchRoommateData_App no_faults ''Carol'' (alex_resolved shared_house))) = None \<and>
   out (fetchRoommateData_App no_faults ''Carol'' (alex_resolved shared_house)) = [] \<and>
   preferences_select_fails preferences_unavailable \<and>
   roommateId (ui (fetchRoommateData_App preferences_unavailable ''Alex'' (alex_typed shared_house))) = Some 7 \<and>
   preferences (ui (fetchRoommateData_App preferences_unavailable ''Alex'' (alex_typed shared_house))) 1 = Some (Num 4)"
proof -
  let ?r = "\<lparr>roommate_ident = 7, roommate_name = ''Alex''\<rparr>"
  have a: "roommates_select_fails roommates_unavailable"
    by (simp add: roommates_unavailable_def)
  have b: "\<not> roommates_select_fails no_faults \<and>
      roommates_eq_name (trim ''Carol'') (db (alex_resolved shared_house)) = []"
    by (simp add: no_faults_def alex_resolved_def shared_house_Alex)
  have c: "\<not> roommates_select_fails preferences_unavailable \<and>
      roommates_eq_name (trim ''Alex'') (db (alex_typed shared_house)) = [?r] \<and>
      preferences_select_fails preferences_unavailable"
    by (simp add: preferences_unavailable_def no_faults_def alex_typed_def shared_house_Alex)
  from fetchRoommateData_outcomes [of roommates_unavailable "''Alex''" "alex_resolved shared_house" ?r] a
  have 1: "ui (fetchRoommateData_App roommates_unavailable ''Alex'' (alex_resolved shared_house)) =
       ui (alex_resolved shared_house)"
     "out (fetchRoommateData_App roommates_unavailable ''Alex'' (alex_resolved shared_house)) =
       out (alex_resolved shared_house) @ [ConsoleError ''Error fetching roommate:'']"
    by blast+
  from fetchRoommateData_outcomes [of no_faults "''Carol''" "alex_resolved shared_house" ?r] b
  have 2: "roommateId (ui (fetchRoommateData_App no_faults ''Carol'' (alex_resolved shared_house))) = None"
    "out (fetchRoommateData_App no_faults ''Carol'' (alex_resolved shared_house)) =
       out (alex_resolved shared_house)"
    by blast+
  from fetchRoommateData_outcomes [of preferences_unavailable "''Alex''" "alex_typed shared_house" ?r] c
  have 3: "roommateId (ui (fetchRoommateData_App preferences_unavailable ''Alex'' (alex_typed shared_house))) =
       Some (roommate_ident ?r)"
    "preferences (ui (fetchRoommateData_App preferences_unavailable ''Alex'' (alex_typed shared_house))) =
       preferences (ui (alex_typed shared_house))"
    by blast+
  from a b c 1 2 3 show ?thesis
    by (simp add: alex_resolved_def alex_typed_def)
qed

section \<open>Superseded resolutions\<close>

lemma race1: "run_App race_newer_done (mount_App shared_house) =
   \<lparr>ui = \<lparr>roommateName = ''Bob'', roommateId = Some 8, chores = [dishes, trash],
           preferences = [1 \<mapsto> Num 5], loading = False\<rparr>,
    db = shared_house, timer = None, inflight = [FetchRoommateData ''Alex''], out = []\<rparr>"
  by (simp add: run_App_def race_newer_done_def mount_App_def initial_session_def drop_task_def
      resume_App_def fetchChores_def select_all_chores_def no_faults_def debounce_callback_def
      trim_Alex call_fetchRoommateData_def fetchRoommateData_App_def fetchPreferences_def
      roommates_eq_name_def single_simps select_preferences_def preferencesMap_def Let_def
      setChores_def setRoommateName_def setRoommateId_def setPreferences_def shared_house_def)

text \<open>
  C4, as the claim states it, fails in \<^verbatim>\<open>App.js\<close>: the name is Bob and the resolution
  started for Bob has completed (identity 8, Bob's preferences), then the answer to the
  lookup started earlier for Alex arrives and overwrites the identity and the preference
  map with those of Alex.
\<close>

theorem stale_resolution_counterexample:
  "roommateName (ui (run_App race_newer_done (mount_App shared_house))) = ''Bob'' \<and>
   roommateId (ui (run_App race_newer_done (mount_App shared_house))) = Some 8 \<and>
   preferences (ui (run_App race_newer_done (mount_App shared_house))) 1 = Some (Num 5) \<and>
   inflight (run_App race_newer_done (mount_App shared_house)) = [FetchRoommateData ''Alex''] \<and>
   roommateName (ui (run_App (race_newer_done @ [Response 0 no_faults]) (mount_App shared_house))) = ''Bob'' \<and>
   roommateId (ui (run_App (race_newer_done @ [Response 0 no_faults]) (mount_App shared_house))) = Some 7 \<and>
   preferences (ui (run_App (race_newer_done @ [Response 0 no_faults]) (mount_App shared_house))) 1 = Some (Num 2)"
proof -
  have 2: "run_App (race_newer_done @ [Response 0 no_faults]) (mount_App shared_house) =
      step_App (Response 0 no_faults) (run_App race_newer_done (mount_App shared_house))"
    by (simp add: run_App_def)
  show ?thesis
    unfolding 2 unfolding race1
    by (simp add: drop_task_def
      resume_App_def no_faults_def 
      trim_Alex fetchRoommateData_App_def fetchPreferences_def
      roommates_eq_name_def single_simps select_preferences_def preferencesMap_def Let_def
      setRoommateId_def setPreferences_def shared_house_def)
qed

text \<open>
  C4, amended. In \<^verbatim>\<open>App.js\<close> an edit of the name replaces the pending debounce timer,
  so only the timer set for the latest name can fire, and a firing timer starts at most one
  resolution, for the trimmed name it was set for. A resolution in flight is not cancelled:
  when its lookups are answered without error, the result is written to the session state
  (the identity found and its stored preferences, or no identity and an empty map when the
  name is not found) whatever the current name is and whatever other resolutions are in
  flight or have completed.
\<close>

theorem resolution_not_cancelled:
  "(n \<noteq> roommateName (ui w) \<longrightarrow> timer (step_App (Type n) w) = Some n \<and>
      inflight (step_App (Type n) w) = inflight w) \<and>
   (timer w = Some m \<longrightarrow> timer (step_App Timeout w) = None \<and>
      inflight (step_App Timeout w) =
        (if trim m = [] then inflight w else inflight w @ [FetchRoommateData (trim m)])) \<and>
   (i < length (inflight w) \<and> inflight w ! i = FetchRoommateData name \<and>
    \<not> roommates_select_fails f \<and> \<not> preferences_select_fails f \<and>
    roommates_eq_name (trim name) (db w) = [r] \<longrightarrow>
      roommateId (ui (step_App (Response i f) w)) = Some (roommate_ident r) \<and>
      preferences (ui (step_App (Response i f) w)) =
        preferencesMap (filter (\<lambda>p. roommate_id p = roommate_ident r) (preferences_table (db w))) \<and>
      roommateName (ui (step_App (Response i f) w)) = roommateName (ui w)) \<and>
   (i < length (inflight w) \<and> inflight w ! i = FetchRoommateData name \<and>
    \<not> roommates_select_fails f \<and> roommates_eq_name (trim name) (db w) = [] \<longrightarrow>
      roommateId (ui (step_App (Response i f) w)) = None \<and>
      preferences (ui (step_App (Response i f) w)) = Map.empty \<and>
      roommateName (ui (step_App (Response i f) w)) = roommateName (ui w))"
  by (simp add: debounce_callback_def call_fetchRoommateData_def resume_App_def
      fetchRoommateData_App_def fetchPreferences_def single_simps select_preferences_def Let_def)

theorem resolution_not_cancelled_witness:
  "''Bob'' \<noteq> roommateName (ui (alex_resolved shared_house)) \<and>
   timer (step_App (Type ''Bob'') (alex_resolved shared_house)) = Some ''Bob'' \<and>
   timer (step_App Timeout (step_App (Type ''Bob'') (alex_resolved shared_house))) = None \<and>
   inflight (step_App Timeout (step_App (Type ''Bob'') (alex_resolved shared_house))) = [FetchRoommateData ''Bob''] \<and>
   roommateId (ui (step_App (Response 0 no_faults)
      ((alex_typed shared_house)\<lparr>ui := (ui (alex_typed shared_house))\<lparr>roommateName := ''Bob''\<rparr>, inflight := [FetchRoommateData ''Alex'']\<rparr>))) = Some 7 \<and>
   roommateId (ui (step_App (Response 0 no_faults)
      ((alex_resolved shared_house)\<lparr>inflight := [FetchRoommateData ''Carol'']\<rparr>))) = None"
proof -
  let ?w1 = "alex_resolved shared_house"
  let ?w2 = "step_App (Type ''Bob'') (alex_resolved shared_house)"
  let ?w3 = "(alex_typed shared_house)\<lparr>ui := (ui (alex_typed shared_house))\<lparr>roommateName := ''Bob''\<rparr>, inflight := [FetchRoommateData ''Alex'']\<rparr>"
  let ?w4 = "(alex_resolved shared_house)\<lparr>inflight := [FetchRoommateData ''Carol'']\<rparr>"
  have a: "''Bob'' \<noteq> roommateName (ui ?w1)" by (simp add: alex_resolved_def)
  have b: "timer ?w2 = Some ''Bob''" by (simp add: alex_resolved_def setRoommateName_def)
  have c: "0 < length (inflight ?w3) \<and> inflight ?w3 ! 0 = FetchRoommateData ''Alex'' \<and>
    \<not> roommates_select_fails no_faults \<and> \<not> preferences_select_fails no_faults \<and>
    roommates_eq_name (trim ''Alex'') (db ?w3) = [\<lparr>roommate_ident = 7, roommate_name = ''Alex''\<rparr>]"
    by (simp add: no_faults_def alex_typed_def shared_house_Alex)
  have d: "0 < length (inflight ?w4) \<and> inflight ?w4 ! 0 = FetchRoommateData ''Carol'' \<and>
    \<not> roommates_select_fails no_faults \<and> roommates_eq_name (trim ''Carol'') (db ?w4) = []"
    by (simp add: no_faults_def alex_resolved_def shared_house_Alex)
  have t: "trim ''Bob'' \<noteq> []" by (simp add: trim_Alex)
  from resolution_not_cancelled [where n = "''Bob''" and w = ?w1] a
  have 1: "timer (step_App (Type ''Bob'') ?w1) = Some ''Bob''" by blast
  from resolution_not_cancelled [where m = "''Bob''" and w = ?w2] b t
  have 2: "timer (step_App Timeout ?w2) = None \<and>
      inflight (step_App Timeout ?w2) = inflight ?w2 @ [FetchRoommateData (trim ''Bob'')]"
    by presburger
  have two: "inflight ?w2 @ [FetchRoommateData (trim ''Bob'')] = [FetchRoommateData ''Bob'']"
    by (simp add: trim_Alex alex_resolved_def setRoommateName_def)
  from resolution_not_cancelled [where w = ?w3 and name = "''Alex''" and i = 0 and f = no_faults
      and r = "\<lparr>roommate_ident = 7, roommate_name = ''Alex''\<rparr>"] c
  have 3: "roommateId (ui (step_App (Response 0 no_faults) ?w3)) = Some 7" by simp
  from resolution_not_cancelled [where w = ?w4 and name = "''Carol''" and i = 0 and f = no_faults] d
  have 4: "roommateId (ui (step_App (Response 0 no_faults) ?w4)) = None" by blast
  from a 1 2 two 3 4 show ?thesis by simp
qed

section \<open>One submit at a time\<close>

lemma filter_drop_nth:
  "i < length xs \<Longrightarrow>
   length (filter P (take i xs @ drop (Suc i) xs)) =
     length (filter P xs) - (if P (xs ! i) then 1 else 0)"
proof -
  assume i: "i < length xs"
  have "length (filter P xs) = length (filter P (take i xs @ xs ! i # drop (Suc i) xs))"
    using i by (simp only: id_take_nth_drop [symmetric])
  then show ?thesis by simp
qed

lemma filter_nth_pos: "i < length xs \<Longrightarrow> P (xs ! i) \<Longrightarrow> 0 < length (filter P xs)"
  by (metis filter_empty_conv length_greater_0_conv nth_mem)

lemma fetchChores_frame [simp]:
  "inflight (fetchChores f w) = inflight w" "loading (ui (fetchChores f w)) = loading (ui w)"
  by (simp_all add: fetchChores_def split: sum.splits)

lemma fetchPreferences_frame [simp]:
  "inflight (fetchPreferences f r w) = inflight w"
  "loading (ui (fetchPreferences f r w)) = loading (ui w)"
  by (simp_all add: fetchPreferences_def Let_def split: sum.splits)

lemma fetchRoommateData_frame [simp]:
  "inflight (fetchRoommateData_App f n w) = inflight w"
  "loading (ui (fetchRoommateData_App f n w)) = loading (ui w)"
  "inflight (fetchRoommateData_page f n w) = inflight w"
  "loading (ui (fetchRoommateData_page f n w)) = loading (ui w)"
  by (simp_all add: fetchRoommateData_App_def fetchRoommateData_page_def Let_def split: sum.splits)

lemmas submit_defs =
  handleSubmit_try_App_def handleSubmit_try_page_def getOrCreate_App_def find_or_insert_roommate_def getOrCreate_page_def insert_new_roommate_def
  savePreferences_def submit_finally_def submit_catch_def Let_def

lemma handleSubmit_try_frame [simp]:
  "inflight (handleSubmit_try_App f c w) = inflight w"
  "inflight (handleSubmit_try_page f c w) = inflight w"
  "timer (handleSubmit_try_App f c w) = timer w"
  "timer (handleSubmit_try_page f c w) = timer w"
  "\<not> loading (ui (handleSubmit_try_App f c w))"
  "\<not> loading (ui (handleSubmit_try_page f c w))"
  "roommateName (ui (handleSubmit_try_App f c w)) = roommateName (ui w)"
  "roommateName (ui (handleSubmit_try_page f c w)) = roommateName (ui w)"
  "preferences (ui (handleSubmit_try_App f c w)) = preferences (ui w)"
  "preferences (ui (handleSubmit_try_page f c w)) = preferences (ui w)"
  "chores (ui (handleSubmit_try_App f c w)) = chores (ui w)"
  "chores (ui (handleSubmit_try_page f c w)) = chores (ui w)"
  by (auto simp: submit_defs split: sum.splits prod.splits option.splits)

lemma submits_in_flight_drop_task:
  "i < length (inflight w) \<Longrightarrow>
   submits_in_flight (drop_task i w) =
     submits_in_flight w - (if is_submit (inflight w ! i) then 1 else 0)"
  unfolding submits_in_flight_def by (simp only: inflight_drop_task filter_drop_nth)

lemma resume_frame:
  "inflight (resume_App f t w) = inflight w"
  "loading (ui (resume_App f t w)) = (\<not> is_submit t \<and> loading (ui w))"
  "inflight (resume_page f t w) = inflight w"
  "loading (ui (resume_page f t w)) = (\<not> is_submit t \<and> loading (ui w))"
  by (cases t; simp add: resume_App_def resume_page_def is_submit_def)+

lemma submits_in_flight_resume:
  "submits_in_flight (resume_App f t w) = submits_in_flight w"
  "submits_in_flight (resume_page f t w) = submits_in_flight w"
  by (simp_all only: submits_in_flight_def resume_frame)

lemma submit_inv_resume:
  assumes "submit_inv w" "i < length (inflight w)"
  shows "submit_inv (resume_App f (inflight w ! i) (drop_task i w))"
    and "submit_inv (resume_page f (inflight w ! i) (drop_task i w))"
proof -
  have pos: "is_submit (inflight w ! i) \<Longrightarrow> 0 < submits_in_flight w"
    unfolding submits_in_flight_def using assms(2) by (intro filter_nth_pos) simp_all
  have n: "submits_in_flight (drop_task i w) =
      submits_in_flight w - (if is_submit (inflight w ! i) then 1 else 0)"
    using assms(2) by (rule submits_in_flight_drop_task)
  show "submit_inv (resume_App f (inflight w ! i) (drop_task i w))"
    using assms(1) pos
    by (simp add: submit_inv_def submits_in_flight_resume resume_frame n split: if_splits)
  show "submit_inv (resume_page f (inflight w ! i) (drop_task i w))"
    using assms(1) pos
    by (simp add: submit_inv_def submits_in_flight_resume resume_frame n split: if_splits)
qed

lemma submit_inv_call_handleSubmit:
  "submit_inv w \<Longrightarrow> \<not> submit_disabled (ui w) \<Longrightarrow> submit_inv (call_handleSubmit w)"
  by (simp add: submit_inv_def submit_disabled_def call_handleSubmit_def submits_in_flight_def
      is_submit_def setLoading_def)

lemma submit_inv_step_App: "submit_inv w \<Longrightarrow> submit_inv (step_App e w)"
proof (cases e)
  case (Response i f)
  assume "submit_inv w"
  then show ?thesis using Response by (simp add: submit_inv_resume)
next
  case Submit
  assume "submit_inv w"
  then show ?thesis using Submit by (simp add: submit_inv_call_handleSubmit)
qed (auto simp: submit_inv_def submits_in_flight_def setRoommateName_def debounce_callback_def
      call_fetchRoommateData_def is_submit_def handlePreferenceChange_def split: option.splits)

lemma submit_inv_step_page: "submit_inv w \<Longrightarrow> submit_inv (step_page e w)"
proof (cases e)
  case (Response i f)
  assume "submit_inv w"
  then show ?thesis using Response by (simp add: submit_inv_resume)
next
  case Submit
  assume "submit_inv w"
  then show ?thesis using Submit by (simp add: submit_inv_call_handleSubmit)
qed (auto simp: submit_inv_def submits_in_flight_def setRoommateName_def handleRoommateNameBlur_def
      call_fetchRoommateData_def is_submit_def handlePreferenceChange_def split: option.splits)

lemma submit_inv_run_App: "submit_inv w \<Longrightarrow> submit_inv (run_App evs w)"
  unfolding run_App_def by (induction evs arbitrary: w) (simp_all add: submit_inv_step_App)

lemma submit_inv_run_page: "submit_inv w \<Longrightarrow> submit_inv (run_page evs w)"
  unfolding run_page_def by (induction evs arbitrary: w) (simp_all add: submit_inv_step_page)

lemma submit_inv_mount: "submit_inv (mount_App st)" "submit_inv (mount_page st)"
  by (simp_all add: submit_inv_def mount_App_def mount_page_def submits_in_flight_def
      is_submit_def initial_session_def)

text \<open>
  C8. The submit control is disabled exactly when a save is pending or the trimmed name is
  empty, and a disabled control starts no submit; so in every run of either file from the
  first render at most one \<^verbatim>\<open>handleSubmit\<close> call is in flight, and the loading flag is
  set exactly while one is. When a submit completes, whether it succeeded or failed, the
  loading flag is cleared: the control is enabled again unless the name is empty.
\<close>

theorem one_submit_in_flight:
  "submit_disabled s = (loading s \<or> trim (roommateName s) = []) \<and>
   step_App Submit (w\<lparr>ui := (ui w)\<lparr>loading := True\<rparr>\<rparr>) = w\<lparr>ui := (ui w)\<lparr>loading := True\<rparr>\<rparr> \<and>
   step_page Submit (w\<lparr>ui := (ui w)\<lparr>loading := True\<rparr>\<rparr>) = w\<lparr>ui := (ui w)\<lparr>loading := True\<rparr>\<rparr> \<and>
   submits_in_flight (run_App evs (mount_App st)) \<le> 1 \<and>
   submits_in_flight (run_page evs (mount_page st)) \<le> 1 \<and>
   loading (ui (run_App evs (mount_App st))) = (submits_in_flight (run_App evs (mount_App st)) = 1) \<and>
   loading (ui (run_page evs (mount_page st))) = (submits_in_flight (run_page evs (mount_page st)) = 1) \<and>
   \<not> loading (ui (handleSubmit_try_App f c w)) \<and>
   \<not> loading (ui (handleSubmit_try_page f c w)) \<and>
   submit_disabled (ui (handleSubmit_try_App f c w)) = (trim (roommateName (ui w)) = []) \<and>
   submit_disabled (ui (handleSubmit_try_page f c w)) = (trim (roommateName (ui w)) = [])"
proof -
  have a: "submit_inv (run_App evs (mount_App st))"
    by (rule submit_inv_run_App) (rule submit_inv_mount)
  have p: "submit_inv (run_page evs (mount_page st))"
    by (rule submit_inv_run_page) (rule submit_inv_mount)
  show ?thesis
    using a p by (simp add: submit_inv_def submit_disabled_def split: if_splits)
qed

theorem one_submit_in_flight_witness:
  "submits_in_flight (run_App [Type ''Alex'', Submit, Submit] (mount_App empty_house)) = 1 \<and>
   loading (ui (run_App [Type ''Alex'', Submit, Submit] (mount_App empty_house))) \<and>
   submit_disabled (ui (run_App [Type ''Alex'', Submit, Submit] (mount_App empty_house))) \<and>
   \<not> loading (ui (run_App [Type ''Alex'', Submit, Submit, Response 1 no_faults] (mount_App empty_house))) \<and>
   submits_in_flight (run_App [Type ''Alex'', Submit, Submit, Response 1 no_faults] (mount_App empty_house)) = 0"
proof -
  let ?w = "run_App [Type ''Alex'', Submit, Submit] (mount_App empty_house)"
  let ?w' = "run_App [Type ''Alex'', Submit, Submit, Response 1 no_faults] (mount_App empty_house)"
  have l: "loading (ui ?w)"
    by (simp add: run_App_def mount_App_def initial_session_def submit_disabled_def trim_Alex
        call_handleSubmit_def setRoommateName_def setLoading_def)
  have i: "inflight ?w ! 1 = HandleSubmit (ui (run_App [Type ''Alex''] (mount_App empty_house)))"
    by (simp add: run_App_def mount_App_def initial_session_def submit_disabled_def trim_Alex
        call_handleSubmit_def setRoommateName_def setLoading_def)
  have n: "length (inflight ?w) = 2"
    by (simp add: run_App_def mount_App_def initial_session_def submit_disabled_def trim_Alex
        call_handleSubmit_def setRoommateName_def setLoading_def)
  have s: "?w' = step_App (Response 1 no_faults) ?w"
    by (simp add: run_App_def)
  have l': "\<not> loading (ui ?w')"
    unfolding s using i n by (simp add: resume_App_def)
  from one_submit_in_flight [of "ui ?w" ?w "[Type ''Alex'', Submit, Submit]" empty_house no_faults "ui ?w"]
       one_submit_in_flight [of "ui ?w" ?w "[Type ''Alex'', Submit, Submit, Response 1 no_faults]" empty_house no_faults "ui ?w"]
       l l'
  show ?thesis by (simp add: submit_disabled_def)
qed


section \<open>A failed submit\<close>

lemma failed_submit_App:
  assumes "\<not> saved w (handleSubmit_App f w)"
  shows "submit_failed w (handleSubmit_App f w)"
    and "\<not> loading (ui (handleSubmit_App f w))"
    and "roommateName (ui (handleSubmit_App f w)) = roommateName (ui w)"
    and "preferences (ui (handleSubmit_App f w)) = preferences (ui w)"
    and "chores (ui (handleSubmit_App f w)) = chores (ui w)"
    and "preferences_table (db (handleSubmit_App f w)) = preferences_table (db w)"
    and "chores_table (db (handleSubmit_App f w)) = chores_table (db w)"
    and "truthy_id (roommateId (ui w)) \<Longrightarrow>
         roommateId (ui (handleSubmit_App f w)) = roommateId (ui w) \<and> db (handleSubmit_App f w) = db w"
    and "getOrCreate_App f (ui w) (setLoading True w) = Inl e \<Longrightarrow>
         roommateId (ui (handleSubmit_App f w)) = roommateId (ui w) \<and> db (handleSubmit_App f w) = db w"
    and "\<not> truthy_id (roommateId (ui w)) \<Longrightarrow>
         getOrCreate_App f (ui w) (setLoading True w) = Inr (i, w1) \<Longrightarrow>
         roommateId (ui (handleSubmit_App f w)) = Some i \<and> db (handleSubmit_App f w) = db w1 \<and>
         (\<exists>r. r \<in> set (roommates_table (db (handleSubmit_App f w))) \<and>
              roommate_ident r = i \<and> roommate_name r = trim (roommateName (ui w)))"
proof -
  show "\<not> loading (ui (handleSubmit_App f w))"
    and "roommateName (ui (handleSubmit_App f w)) = roommateName (ui w)"
    and "preferences (ui (handleSubmit_App f w)) = preferences (ui w)"
    and "chores (ui (handleSubmit_App f w)) = chores (ui w)"
    by (simp_all add: handleSubmit_App_def)
  have ends: "(\<exists>e. getOrCreate_App f (ui w) (setLoading True w) = Inl e \<and>
        handleSubmit_App f w = submit_finally (submit_catch (setLoading True w))) \<or>
      (\<exists>j w2. getOrCreate_App f (ui w) (setLoading True w) = Inr (j, w2) \<and>
        handleSubmit_App f w = submit_finally (submit_catch w2))"
  proof (cases f "ui w" "setLoading True w" rule: handleSubmit_try_App_cases)
    case (identity_failed e)
    then show ?thesis by (simp add: handleSubmit_App_def)
  next
    case (save_failed j w2 e)
    then show ?thesis by (simp add: handleSubmit_App_def)
  next
    case (saved j w2 w3)
    from savePreferences_Inr [OF saved(2)] getOrCreate_App_Inr(1) [OF saved(1)] saved(3) assms
    show ?thesis
      by (auto simp: handleSubmit_App_def saved_def submit_finally_def)
  qed
  from ends show "submit_failed w (handleSubmit_App f w)"
    by (auto simp: submit_failed_def submit_finally_def submit_catch_def
        dest: getOrCreate_App_Inr(1))
  from ends show "preferences_table (db (handleSubmit_App f w)) = preferences_table (db w)"
    by (auto simp: submit_finally_def submit_catch_def dest: getOrCreate_App_Inr(6))
  from ends show "chores_table (db (handleSubmit_App f w)) = chores_table (db w)"
    by (auto simp: submit_finally_def submit_catch_def dest: getOrCreate_App_Inr(7))
  show "roommateId (ui (handleSubmit_App f w)) = roommateId (ui w) \<and> db (handleSubmit_App f w) = db w"
    if t: "truthy_id (roommateId (ui w))"
  proof -
    from getOrCreate_truthy [OF t] obtain j where
      "getOrCreate_App f (ui w) (setLoading True w) = Inr (j, setLoading True w)" by blast
    with ends show ?thesis
      by (auto simp: submit_finally_def submit_catch_def)
  qed
  show "roommateId (ui (handleSubmit_App f w)) = roommateId (ui w) \<and> db (handleSubmit_App f w) = db w"
    if "getOrCreate_App f (ui w) (setLoading True w) = Inl e"
    using ends that by (auto simp: submit_finally_def submit_catch_def)
  show "roommateId (ui (handleSubmit_App f w)) = Some i \<and> db (handleSubmit_App f w) = db w1 \<and>
         (\<exists>r. r \<in> set (roommates_table (db (handleSubmit_App f w))) \<and>
              roommate_ident r = i \<and> roommate_name r = trim (roommateName (ui w)))"
    if n: "\<not> truthy_id (roommateId (ui w))"
      and g: "getOrCreate_App f (ui w) (setLoading True w) = Inr (i, w1)"
  proof -
    from ends g have hs: "handleSubmit_App f w = submit_finally (submit_catch w1)" by auto
    have "ui w1 = (ui (setLoading True w))\<lparr>roommateId := Some i\<rparr>"
      using getOrCreate_App_Inr(4) [OF g] n by simp
    then have 1: "roommateId (ui (handleSubmit_App f w)) = Some i"
      by (simp add: hs submit_finally_def submit_catch_def)
    have 2: "db (handleSubmit_App f w) = db w1"
      by (simp add: hs submit_finally_def submit_catch_def)
    have 3: "\<exists>r. r \<in> set (roommates_table (db w1)) \<and>
              roommate_ident r = i \<and> roommate_name r = trim (roommateName (ui w))"
      proof -
      from getOrCreate_App_Inr(11) [OF g] n obtain r where
        r: "roommates_eq_name (trim (roommateName (ui w))) (db w1) = [r]" "roommate_ident r = i"
        by auto
      from roommates_eq_name_single [OF r(1)] r(2) show ?thesis by blast
    qed
    from 1 2 3 show ?thesis by simp
  qed
qed

lemma failed_submit_page:
  assumes "\<not> saved w (handleSubmit_page f w)"
  shows "submit_failed w (handleSubmit_page f w)"
    and "\<not> loading (ui (handleSubmit_page f w))"
    and "roommateName (ui (handleSubmit_page f w)) = roommateName (ui w)"
    and "preferences (ui (handleSubmit_page f w)) = preferences (ui w)"
    and "chores (ui (handleSubmit_page f w)) = chores (ui w)"
    and "preferences_table (db (handleSubmit_page f w)) = preferences_table (db w)"
    and "chores_table (db (handleSubmit_page f w)) = chores_table (db w)"
    and "truthy_id (roommateId (ui w)) \<Longrightarrow>
         roommateId (ui (handleSubmit_page f w)) = roommateId (ui w) \<and> db (handleSubmit_page f w) = db w"
    and "getOrCreate_page f (ui w) (setLoading True w) = Inl e \<Longrightarrow>
         roommateId (ui (handleSubmit_page f w)) = roommateId (ui w) \<and> db (handleSubmit_page f w) = db w"
    and "\<not> truthy_id (roommateId (ui w)) \<Longrightarrow>
         getOrCreate_page f (ui w) (setLoading True w) = Inr (i, w1) \<Longrightarrow>
         roommateId (ui (handleSubmit_page f w)) = Some i \<and> db (handleSubmit_page f w) = db w1 \<and>
         (\<exists>r. r \<in> set (roommates_table (db (handleSubmit_page f w))) \<and>
              roommate_ident r = i \<and> roommate_name r = roommateName (ui w))"
proof -
  show "\<not> loading (ui (handleSubmit_page f w))"
    and "roommateName (ui (handleSubmit_page f w)) = roommateName (ui w)"
    and "preferences (ui (handleSubmit_page f w)) = preferences (ui w)"
    and "chores (ui (handleSubmit_page f w)) = chores (ui w)"
    by (simp_all add: handleSubmit_page_def)
  have ends: "(\<exists>e. getOrCreate_page f (ui w) (setLoading True w) = Inl e \<and>
        handleSubmit_page f w = submit_finally (submit_catch (setLoading True w))) \<or>
      (\<exists>j w2. getOrCreate_page f (ui w) (setLoading True w) = Inr (j, w2) \<and>
        handleSubmit_page f w = submit_finally (submit_catch w2))"
  proof (cases f "ui w" "setLoading True w" rule: handleSubmit_try_page_cases)
    case (identity_failed e)
    then show ?thesis by (simp add: handleSubmit_page_def)
  next
    case (save_failed j w2 e)
    then show ?thesis by (simp add: handleSubmit_page_def)
  next
    case (saved j w2 w3)
    from savePreferences_Inr [OF saved(2)] getOrCreate_page_Inr(1) [OF saved(1)] saved(3) assms
    show ?thesis
      by (auto simp: handleSubmit_page_def saved_def submit_finally_def)
  qed
  from ends show "submit_failed w (handleSubmit_page f w)"
    by (auto simp: submit_failed_def submit_finally_def submit_catch_def
        dest: getOrCreate_page_Inr(1))
  from ends show "preferences_table (db (handleSubmit_page f w)) = preferences_table (db w)"
    by (auto simp: submit_finally_def submit_catch_def dest: getOrCreate_page_Inr(6))
  from ends show "chores_table (db (handleSubmit_page f w)) = chores_table (db w)"
    by (auto simp: submit_finally_def submit_catch_def dest: getOrCreate_page_Inr(7))
  show "roommateId (ui (handleSubmit_page f w)) = roommateId (ui w) \<and> db (handleSubmit_page f w) = db w"
    if t: "truthy_id (roommateId (ui w))"
  proof -
    from getOrCreate_truthy [OF t] obtain j where
      "getOrCreate_page f (ui w) (setLoading True w) = Inr (j, setLoading True w)" by blast
    with ends show ?thesis
      by (auto simp: submit_finally_def submit_catch_def)
  qed
  show "roommateId (ui (handleSubmit_page f w)) = roommateId (ui w) \<and> db (handleSubmit_page f w) = db w"
    if "getOrCreate_page f (ui w) (setLoading True w) = Inl e"
    using ends that by (auto simp: submit_finally_def submit_catch_def)
  show "roommateId (ui (handleSubmit_page f w)) = Some i \<and> db (handleSubmit_page f w) = db w1 \<and>
         (\<exists>r. r \<in> set (roommates_table (db (handleSubmit_page f w))) \<and>
              roommate_ident r = i \<and> roommate_name r = roommateName (ui w))"
    if n: "\<not> truthy_id (roommateId (ui w))"
      and g: "getOrCreate_page f (ui w) (setLoading True w) = Inr (i, w1)"
  proof -
    from ends g have hs: "handleSubmit_page f w = submit_finally (submit_catch w1)" by auto
    have "ui w1 = (ui (setLoading True w))\<lparr>roommateId := Some i\<rparr>"
      using getOrCreate_page_Inr(4) [OF g] n by simp
    then have 1: "roommateId (ui (handleSubmit_page f w)) = Some i"
      by (simp add: hs submit_finally_def submit_catch_def)
    have 2: "db (handleSubmit_page f w) = db w1"
      by (simp add: hs submit_finally_def submit_catch_def)
    have 3: "\<exists>r. r \<in> set (roommates_table (db w1)) \<and>
              roommate_ident r = i \<and> roommate_name r = roommateName (ui w)"
      proof -
      from getOrCreate_page_Inr(11) [OF g] n
      have "roommates_table (db w1) = roommates_table (db (setLoading True w)) @
          [\<lparr>roommate_ident = i, roommate_name = roommateName (ui w)\<rparr>]" by simp
      then have "\<lparr>roommate_ident = i, roommate_name = roommateName (ui w)\<rparr>
          \<in> set (roommates_table (db w1))" by simp
      then show ?thesis by force
    qed
    from 1 2 3 show ?thesis by simp
  qed
qed

lemma failing_upsert_run:
  "handleSubmit_App upsert_unavailable (alex_typed empty_house) =
     \<lparr>ui = \<lparr>roommateName = ''Alex'', roommateId = Some 1, chores = [dishes, trash],
             preferences = [1 \<mapsto> Num 4], loading = False\<rparr>,
      db = empty_house\<lparr>roommates_table := [\<lparr>roommate_ident = 1, roommate_name = ''Alex''\<rparr>],
                        next_ident := 2\<rparr>,
      timer = None, inflight = [],
      out = [ConsoleError ''Error:'', Alert ''An error occurred while saving preferences.'']\<rparr>"
  by (simp add: handleSubmit_App_def handleSubmit_try_App_def getOrCreate_App_def
      find_or_insert_roommate_def savePreferences_def
      upsert_unavailable_def no_faults_def alex_typed_def empty_house_def trim_Alex
      roommates_eq_name_def maybeSingle_simps insert_roommate_def upsert_preferences_def
      submit_finally_def submit_catch_def setLoading_def setRoommateId_def alert_def
      console_error_def Let_def)

lemma failing_upsert_run_page:
  "handleSubmit_page upsert_unavailable (alex_typed empty_house) =
     \<lparr>ui = \<lparr>roommateName = ''Alex'', roommateId = Some 1, chores = [dishes, trash],
             preferences = [1 \<mapsto> Num 4], loading = False\<rparr>,
      db = empty_house\<lparr>roommates_table := [\<lparr>roommate_ident = 1, roommate_name = ''Alex''\<rparr>],
                        next_ident := 2\<rparr>,
      timer = None, inflight = [],
      out = [ConsoleError ''Error:'', Alert ''An error occurred while saving preferences.'']\<rparr>"
  by (simp add: handleSubmit_page_def handleSubmit_try_page_def getOrCreate_page_def
      insert_new_roommate_def savePreferences_def
      upsert_unavailable_def no_faults_def alex_typed_def empty_house_def
      roommates_eq_name_def insert_roommate_def upsert_preferences_def
      submit_finally_def submit_catch_def setLoading_def setRoommateId_def alert_def
      console_error_def Let_def del: One_nat_def)

lemma failing_upsert_run_resolved:
  "out (handleSubmit_App upsert_unavailable (alex_resolved shared_house)) =
     [ConsoleError ''Error:'', Alert ''An error occurred while saving preferences.'']"
  "out (handleSubmit_page upsert_unavailable (alex_resolved shared_house)) =
     [ConsoleError ''Error:'', Alert ''An error occurred while saving preferences.'']"
  by (simp_all add: handleSubmit_App_def handleSubmit_try_App_def getOrCreate_App_def
      handleSubmit_page_def handleSubmit_try_page_def getOrCreate_page_def savePreferences_def
      upsert_unavailable_def no_faults_def alex_resolved_def upsert_preferences_def
      submit_finally_def submit_catch_def Let_def)

lemma failing_lookup_run:
  "getOrCreate_App roommates_unavailable (ui (alex_typed empty_house))
     (setLoading True (alex_typed empty_house)) = Inl Unavailable"
  "out (handleSubmit_App roommates_unavailable (alex_typed empty_house)) =
     [ConsoleError ''Error:'', Alert ''An error occurred while saving preferences.'']"
  by (simp_all add: handleSubmit_App_def handleSubmit_try_App_def getOrCreate_App_def
      find_or_insert_roommate_def roommates_unavailable_def no_faults_def alex_typed_def
      maybeSingle_simps submit_finally_def submit_catch_def Let_def)

text \<open>
  C5, as the claim states it, fails: when the identity step succeeds and the upsert of the
  preferences fails, the resolved identity is not as it was before the submit. Here the
  name Alex is unresolved, the submit inserts Alex with id 1 and stores the id in the
  session, and then the upsert fails.
\<close>

theorem failed_submit_identity_counterexample:
  "roommateId (ui (alex_typed empty_house)) = None \<and>
   roommateId (ui (handleSubmit_App upsert_unavailable (alex_typed empty_house))) = Some 1 \<and>
   out (handleSubmit_App upsert_unavailable (alex_typed empty_house)) =
     [ConsoleError ''Error:'', Alert ''An error occurred while saving preferences.'']"
  unfolding failing_upsert_run by (simp add: alex_typed_def)

text \<open>
  C5, amended. For every submit that does not end with the success notice, in either
  file: the failure notice is shown, the loading flag is cleared, no preference row has
  been written, and the name, the preference map and the catalog of the session are as
  they were before the submit. When the id of the session was present before the submit
  (neither \<^verbatim>\<open>null\<close> nor 0), or when the identity step itself failed, the resolved
  identity and the store are as they were before too. Otherwise, that is when the id was
  \<^verbatim>\<open>null\<close> or 0, the identity step succeeded and the upsert failed, the resolved
  identity is the identity that step found or inserted, a row of the store with the
  submitted name, and the store is as that step left it.
\<close>

theorem failed_submit_state:
  "(\<not> saved w (handleSubmit_App f w) \<longrightarrow>
     submit_failed w (handleSubmit_App f w) \<and>
     \<not> loading (ui (handleSubmit_App f w)) \<and>
     roommateName (ui (handleSubmit_App f w)) = roommateName (ui w) \<and>
     preferences (ui (handleSubmit_App f w)) = preferences (ui w) \<and>
     chores (ui (handleSubmit_App f w)) = chores (ui w) \<and>
     preferences_table (db (handleSubmit_App f w)) = preferences_table (db w) \<and>
     chores_table (db (handleSubmit_App f w)) = chores_table (db w) \<and>
     (truthy_id (roommateId (ui w)) \<longrightarrow>
        roommateId (ui (handleSubmit_App f w)) = roommateId (ui w) \<and>
        db (handleSubmit_App f w) = db w) \<and>
     (\<forall>e. getOrCreate_App f (ui w) (setLoading True w) = Inl e \<longrightarrow>
        roommateId (ui (handleSubmit_App f w)) = roommateId (ui w) \<and>
        db (handleSubmit_App f w) = db w) \<and>
     (\<forall>i w1. \<not> truthy_id (roommateId (ui w)) \<and>
        getOrCreate_App f (ui w) (setLoading True w) = Inr (i, w1) \<longrightarrow>
        roommateId (ui (handleSubmit_App f w)) = Some i \<and>
        db (handleSubmit_App f w) = db w1 \<and>
        (\<exists>r. r \<in> set (roommates_table (db (handleSubmit_App f w))) \<and>
             roommate_ident r = i \<and> roommate_name r = trim (roommateName (ui w))))) \<and>
   (\<not> saved w (handleSubmit_page f w) \<longrightarrow>
     submit_failed w (handleSubmit_page f w) \<and>
     \<not> loading (ui (handleSubmit_page f w)) \<and>
     roommateName (ui (handleSubmit_page f w)) = roommateName (ui w) \<and>
     preferences (ui (handleSubmit_page f w)) = preferences (ui w) \<and>
     chores (ui (handleSubmit_page f w)) = chores (ui w) \<and>
     preferences_table (db (handleSubmit_page f w)) = preferences_table (db w) \<and>
     chores_table (db (handleSubmit_page f w)) = chores_table (db w) \<and>
     (truthy_id (roommateId (ui w)) \<longrightarrow>
        roommateId (ui (handleSubmit_page f w)) = roommateId (ui w) \<and>
        db (handleSubmit_page f w) = db w) \<and>
     (\<forall>e. getOrCreate_page f (ui w) (setLoading True w) = Inl e \<longrightarrow>
        roommateId (ui (handleSubmit_page f w)) = roommateId (ui w) \<and>
        db (handleSubmit_page f w) = db w) \<and>
     (\<forall>i w1. \<not> truthy_id (roommateId (ui w)) \<and>
        getOrCreate_page f (ui w) (setLoading True w) = Inr (i, w1) \<longrightarrow>
        roommateId (ui (handleSubmit_page f w)) = Some i \<and>
        db (handleSubmit_page f w) = db w1 \<and>
        (\<exists>r. r \<in> set (roommates_table (db (handleSubmit_page f w))) \<and>
             roommate_ident r = i \<and> roommate_name r = roommateName (ui w))))"
proof (intro conjI impI allI)
  fix e i w1
  note a = failed_submit_App [of w f]
  note p = failed_submit_page [of w f]
  {
    assume h: "\<not> saved w (handleSubmit_App f w)"
    show "submit_failed w (handleSubmit_App f w)" by (rule a(1) [OF h])
    show "\<not> loading (ui (handleSubmit_App f w))" by (rule a(2) [OF h])
    show "roommateName (ui (handleSubmit_App f w)) = roommateName (ui w)" by (rule a(3) [OF h])
    show "preferences (ui (handleSubmit_App f w)) = preferences (ui w)" by (rule a(4) [OF h])
    show "chores (ui (handleSubmit_App f w)) = chores (ui w)" by (rule a(5) [OF h])
    show "preferences_table (db (handleSubmit_App f w)) = preferences_table (db w)"
      by (rule a(6) [OF h])
    show "chores_table (db (handleSubmit_App f w)) = chores_table (db w)" by (rule a(7) [OF h])
    {
      assume t: "truthy_id (roommateId (ui w))"
      show "roommateId (ui (handleSubmit_App f w)) = roommateId (ui w)"
        and "db (handleSubmit_App f w) = db w"
        using a(8) [OF h t] by simp_all
    }
    {
      assume g: "getOrCreate_App f (ui w) (setLoading True w) = Inl e"
      show "roommateId (ui (handleSubmit_App f w)) = roommateId (ui w)"
        and "db (handleSubmit_App f w) = db w"
        using a(9) [OF h g] by simp_all
    }
    {
      assume g: "\<not> truthy_id (roommateId (ui w)) \<and>
        getOrCreate_App f (ui w) (setLoading True w) = Inr (i, w1)"
      show "roommateId (ui (handleSubmit_App f w)) = Some i"
        and "db (handleSubmit_App f w) = db w1"
        and "\<exists>r. r \<in> set (roommates_table (db (handleSubmit_App f w))) \<and>
             roommate_ident r = i \<and> roommate_name r = trim (roommateName (ui w))"
        using a(10) [OF h, of i w1] g by blast+
    }
  }
  {
    assume h: "\<not> saved w (handleSubmit_page f w)"
    show "submit_failed w (handleSubmit_page f w)" by (rule p(1) [OF h])
    show "\<not> loading (ui (handleSubmit_page f w))" by (rule p(2) [OF h])
    show "roommateName (ui (handleSubmit_page f w)) = roommateName (ui w)" by (rule p(3) [OF h])
    show "preferences (ui (handleSubmit_page f w)) = preferences (ui w)" by (rule p(4) [OF h])
    show "chores (ui (handleSubmit_page f w)) = chores (ui w)" by (rule p(5) [OF h])
    show "preferences_table (db (handleSubmit_page f w)) = preferences_table (db w)"
      by (rule p(6) [OF h])
    show "chores_table (db (handleSubmit_page f w)) = chores_table (db w)" by (rule p(7) [OF h])
    {
      assume t: "truthy_id (roommateId (ui w))"
      show "roommateId (ui (handleSubmit_page f w)) = roommateId (ui w)"
        and "db (handleSubmit_page f w) = db w"
        using p(8) [OF h t] by simp_all
    }
    {
      assume g: "getOrCreate_page f (ui w) (setLoading True w) = Inl e"
      show "roommateId (ui (handleSubmit_page f w)) = roommateId (ui w)"
        and "db (handleSubmit_page f w) = db w"
        using p(9) [OF h g] by simp_all
    }
    {
      assume g: "\<not> truthy_id (roommateId (ui w)) \<and>
        getOrCreate_page f (ui w) (setLoading True w) = Inr (i, w1)"
      show "roommateId (ui (handleSubmit_page f w)) = Some i"
        and "db (handleSubmit_page f w) = db w1"
        and "\<exists>r. r \<in> set (roommates_table (db (handleSubmit_page f w))) \<and>
             roommate_ident r = i \<and> roommate_name r = roommateName (ui w)"
        using p(10) [OF h, of i w1] g by blast+
    }
  }
qed

theorem failed_submit_state_witness:
  "\<not> saved (alex_typed empty_house) (handleSubmit_App upsert_unavailable (alex_typed empty_house)) \<and>
   submit_failed (alex_typed empty_house) (handleSubmit_App upsert_unavailable (alex_typed empty_house)) \<and>
   \<not> loading (ui (handleSubmit_App upsert_unavailable (alex_typed empty_house))) \<and>
   roommateName (ui (handleSubmit_App upsert_unavailable (alex_typed empty_house))) = ''Alex'' \<and>
   preferences_table (db (handleSubmit_App upsert_unavailable (alex_typed empty_house))) = [] \<and>
   \<not> saved (alex_typed empty_house) (handleSubmit_page upsert_unavailable (alex_typed empty_house)) \<and>
   submit_failed (alex_typed empty_house) (handleSubmit_page upsert_unavailable (alex_typed empty_house)) \<and>
   preferences_table (db (handleSubmit_page upsert_unavailable (alex_typed empty_house))) = [] \<and>
   truthy_id (roommateId (ui (alex_resolved shared_house))) \<and>
   \<not> saved (alex_resolved shared_house) (handleSubmit_App upsert_unavailable (alex_resolved shared_house)) \<and>
   roommateId (ui (handleSubmit_App upsert_unavailable (alex_resolved shared_house))) = Some 7 \<and>
   db (handleSubmit_App upsert_unavailable (alex_resolved shared_house)) = shared_house \<and>
   \<not> saved (alex_resolved shared_house) (handleSubmit_page upsert_unavailable (alex_resolved shared_house)) \<and>
   roommateId (ui (handleSubmit_page upsert_unavailable (alex_resolved shared_house))) = Some 7 \<and>
   db (handleSubmit_page upsert_unavailable (alex_resolved shared_house)) = shared_house \<and>
   \<not> saved (alex_typed empty_house) (handleSubmit_App roommates_unavailable (alex_typed empty_house)) \<and>
   roommateId (ui (handleSubmit_App roommates_unavailable (alex_typed empty_house))) = None \<and>
   db (handleSubmit_App roommates_unavailable (alex_typed empty_house)) = empty_house"
proof -
  let ?w = "alex_typed empty_house"
  let ?v = "alex_resolved shared_house"
  have g: "\<not> saved ?w (handleSubmit_page upsert_unavailable ?w)"
    unfolding failing_upsert_run_page by (simp add: saved_def alex_typed_def)
  have h: "\<not> saved ?w (handleSubmit_App upsert_unavailable ?w)"
    unfolding failing_upsert_run by (simp add: saved_def alex_typed_def)
  have e: "roommateName (ui ?w) = ''Alex''" "preferences_table (db ?w) = []"
    "roommateId (ui ?w) = None" "db ?w = empty_house"
    by (simp_all add: alex_typed_def empty_house_def)
  have t: "truthy_id (roommateId (ui ?v))" "roommateId (ui ?v) = Some 7" "db ?v = shared_house"
    by (simp_all add: alex_resolved_def truthy_id_def)
  have o: "out ?v = []" "out ?w = []"
    by (simp_all add: alex_resolved_def alex_typed_def)
  have k: "\<not> saved ?v (handleSubmit_App upsert_unavailable ?v)"
    "\<not> saved ?v (handleSubmit_page upsert_unavailable ?v)"
    by (simp_all add: saved_def failing_upsert_run_resolved o)
  have l: "\<not> saved ?w (handleSubmit_App roommates_unavailable ?w)"
    by (simp add: saved_def failing_lookup_run o)
  note W = failed_submit_state [where w = ?w and f = upsert_unavailable]
  note V = failed_submit_state [where w = ?v and f = upsert_unavailable]
  note L = failed_submit_state [where w = ?w and f = roommates_unavailable]
  from W h have 1: "submit_failed ?w (handleSubmit_App upsert_unavailable ?w)"
    "\<not> loading (ui (handleSubmit_App upsert_unavailable ?w))"
    "roommateName (ui (handleSubmit_App upsert_unavailable ?w)) = roommateName (ui ?w)"
    "preferences_table (db (handleSubmit_App upsert_unavailable ?w)) = preferences_table (db ?w)"
    by blast+
  from W g have 2: "submit_failed ?w (handleSubmit_page upsert_unavailable ?w)"
    "preferences_table (db (handleSubmit_page upsert_unavailable ?w)) = preferences_table (db ?w)"
    by blast+
  from V k(1) t(1) have 3: "roommateId (ui (handleSubmit_App upsert_unavailable ?v)) = roommateId (ui ?v)"
    "db (handleSubmit_App upsert_unavailable ?v) = db ?v"
    by blast+
  from V k(2) t(1) have 4: "roommateId (ui (handleSubmit_page upsert_unavailable ?v)) = roommateId (ui ?v)"
    "db (handleSubmit_page upsert_unavailable ?v) = db ?v"
    by blast+
  from L l failing_lookup_run(1)
  have 5: "roommateId (ui (handleSubmit_App roommates_unavailable ?w)) = roommateId (ui ?w)"
    "db (handleSubmit_App roommates_unavailable ?w) = db ?w"
    by blast+
  have pt: "preferences_table empty_house = []" by (simp add: empty_house_def)
  from g h k l t(1) 1 2 3 4 5 show ?thesis
    by (simp only: e t(2,3) pt simp_thms)
qed

section \<open>The upsert\<close>

lemma pref_key_update [simp]: "pref_key (r\<lparr>preference_score := v\<rparr>) = pref_key r"
  by (simp add: pref_key_def)

lemma key_in_table: "r \<in> set tbl \<Longrightarrow> pref_key r \<in> set (map pref_key tbl)"
  by simp

lemma keys_upsert_row:
  "map pref_key (upsert_row tbl p) =
     (if pref_key p \<in> set (map pref_key tbl) then map pref_key tbl else map pref_key tbl @ [pref_key p])"
  by (induction tbl) (auto simp: upsert_row_def)

lemma distinct_upsert_row:
  "distinct (map pref_key tbl) \<Longrightarrow> distinct (map pref_key (upsert_row tbl p))"
  by (simp add: keys_upsert_row)

lemma distinct_upsert_rows:
  "distinct (map pref_key tbl) \<Longrightarrow> distinct (map pref_key (foldl upsert_row tbl ps))"
  by (induction ps arbitrary: tbl) (simp_all add: distinct_upsert_row)

lemma length_upsert_row: "length tbl \<le> length (upsert_row tbl p)"
  by (simp add: upsert_row_def)

lemma length_upsert_rows: "length tbl \<le> length (foldl upsert_row tbl ps)"
proof (induction ps arbitrary: tbl)
  case Nil
  show ?case by simp
next
  case (Cons p ps)
  have "length tbl \<le> length (upsert_row tbl p)" by (rule length_upsert_row)
  also have "\<dots> \<le> length (foldl upsert_row (upsert_row tbl p) ps)" by (rule Cons.IH)
  finally show ?case by simp
qed

lemma nth_upsert_row:
  "j < length tbl \<Longrightarrow>
   upsert_row tbl p ! j =
     (if pref_key (tbl ! j) = pref_key p then (tbl ! j)\<lparr>preference_score := preference_score p\<rparr>
      else tbl ! j)"
proof (cases "pref_key p \<in> set (map pref_key tbl)")
  case True
  assume "j < length tbl"
  with True show ?thesis by (simp add: upsert_row_def)
next
  case False
  assume j: "j < length tbl"
  then have "tbl ! j \<in> set tbl" by simp
  with False have "pref_key (tbl ! j) \<noteq> pref_key p" by (metis key_in_table)
  with False j show ?thesis by (simp add: upsert_row_def nth_append)
qed

lemma nth_upsert_rows_less: "j < length tbl \<Longrightarrow> j < length (foldl upsert_row tbl ps)"
  using length_upsert_rows [of tbl ps] by simp

text \<open>
  A stored row keeps its place and its pair through an upsert; its score is that of the
  batch when the batch holds its pair, and is unchanged otherwise.
\<close>

lemma key_nth_upsert_rows:
  "j < length tbl \<Longrightarrow> pref_key (foldl upsert_row tbl ps ! j) = pref_key (tbl ! j)"
  by (induction ps rule: rev_induct) (simp_all add: nth_upsert_row nth_upsert_rows_less)

lemma nth_upsert_rows_other:
  "j < length tbl \<Longrightarrow> pref_key (tbl ! j) \<notin> pref_key ` set ps \<Longrightarrow>
   foldl upsert_row tbl ps ! j = tbl ! j"
proof (induction ps rule: rev_induct)
  case Nil
  show ?case by simp
next
  case (snoc p ps)
  then have "foldl upsert_row tbl ps ! j = tbl ! j" "pref_key (tbl ! j) \<noteq> pref_key p" by auto
  with snoc.prems(1) show ?case
    by (simp add: nth_upsert_row nth_upsert_rows_less)
qed

lemma nth_upsert_rows_same:
  assumes "j < length tbl" and "pref_key (tbl ! j) \<in> pref_key ` set ps"
    and "\<forall>p \<in> set ps. pref_key p = pref_key (tbl ! j) \<longrightarrow> preference_score p = v"
  shows "foldl upsert_row tbl ps ! j = (tbl ! j)\<lparr>preference_score := v\<rparr>"
  using assms(2,3)
proof (induction ps rule: rev_induct)
  case Nil
  then show ?case by simp
next
  case (snoc p ps)
  let ?t = "foldl upsert_row tbl ps"
  have len: "j < length ?t" using assms(1) by (rule nth_upsert_rows_less)
  have key: "pref_key (?t ! j) = pref_key (tbl ! j)" using assms(1) by (rule key_nth_upsert_rows)
  show ?case
  proof (cases "pref_key p = pref_key (tbl ! j)")
    case True
    with snoc.prems(2) have v: "preference_score p = v" by simp
    have "?t ! j = tbl ! j \<or> ?t ! j = (tbl ! j)\<lparr>preference_score := v\<rparr>"
    proof (cases "pref_key (tbl ! j) \<in> pref_key ` set ps")
      case True
      with snoc show ?thesis by simp
    next
      case False
      with assms(1) show ?thesis by (simp add: nth_upsert_rows_other)
    qed
    with True v len key show ?thesis
      by (auto simp add: nth_upsert_row)
  next
    case False
    with snoc.prems(1) have "pref_key (tbl ! j) \<in> pref_key ` set ps" by auto
    with snoc have "?t ! j = (tbl ! j)\<lparr>preference_score := v\<rparr>" by simp
    with False len show ?thesis
      by (simp add: nth_upsert_row)
  qed
qed




section \<open>The rows a submit writes\<close>

lemma saved_App:
  assumes "saved w (handleSubmit_App f w)"
  obtains i where "roommateId (ui (handleSubmit_App f w)) = Some i"
    "\<not> truthy_id (roommateId (ui w)) \<or> roommateId (ui w) = Some i"
    "preferences_table (db (handleSubmit_App f w)) =
       foldl upsert_row (preferences_table (db w)) (preferencesData i (chores (ui w)) (preferences (ui w)))"
proof (cases f "ui w" "setLoading True w" rule: handleSubmit_try_App_cases)
  case (identity_failed e)
  with assms show ?thesis
    by (simp add: handleSubmit_App_def saved_def submit_finally_def submit_catch_def)
next
  case (save_failed i w1 e)
  with assms getOrCreate_App_Inr(1) [OF save_failed(1)] show ?thesis
    by (simp add: handleSubmit_App_def saved_def submit_finally_def submit_catch_def)
next
  case (saved i w1 w2)
  note g = getOrCreate_App_Inr [OF saved(1)]
  from savePreferences_Inr [OF saved(2)] obtain db' where
    u: "upsert_preferences (preferences_upsert_fails f) OnConflict_roommate_id_chore_id
          (preferencesData i (chores (ui w)) (preferences (ui w))) (db w1) = Inr db'"
    and w2: "w2 = alert ''Preferences saved successfully!'' (w1\<lparr>db := db'\<rparr>)" by auto
  from u g(6) have t: "preferences_table db' =
      foldl upsert_row (preferences_table (db w)) (preferencesData i (chores (ui w)) (preferences (ui w)))"
    by (auto simp: upsert_preferences_def split: if_splits)
  have w': "handleSubmit_App f w = submit_finally w2"
    using saved(3) by (simp add: handleSubmit_App_def)
  have "roommateId (ui w1) = Some i"
    using g(4,5) by (cases "truthy_id (roommateId (ui w))") simp_all
  then have 1: "roommateId (ui (handleSubmit_App f w)) = Some i"
    by (simp add: w' w2 submit_finally_def)
  have 2: "\<not> truthy_id (roommateId (ui w)) \<or> roommateId (ui w) = Some i"
    using g(5) by auto
  have 3: "preferences_table (db (handleSubmit_App f w)) =
       foldl upsert_row (preferences_table (db w)) (preferencesData i (chores (ui w)) (preferences (ui w)))"
    by (simp add: w' w2 submit_finally_def t)
  from 1 2 3 show ?thesis by (rule that)
qed

lemma saved_page:
  assumes "saved w (handleSubmit_page f w)"
  obtains i where "roommateId (ui (handleSubmit_page f w)) = Some i"
    "\<not> truthy_id (roommateId (ui w)) \<or> roommateId (ui w) = Some i"
    "preferences_table (db (handleSubmit_page f w)) =
       (if pk_roommate_chore (db w)
        then foldl upsert_row (preferences_table (db w))
               (preferencesData i (chores (ui w)) (preferences (ui w)))
        else preferences_table (db w) @ preferencesData i (chores (ui w)) (preferences (ui w)))"
    "pk_roommate_chore (db w) \<or>
     distinct (map pref_key (preferences_table (db w) @
        preferencesData i (chores (ui w)) (preferences (ui w))))"
proof (cases f "ui w" "setLoading True w" rule: handleSubmit_try_page_cases)
  case (identity_failed e)
  with assms show ?thesis
    by (simp add: handleSubmit_page_def saved_def submit_finally_def submit_catch_def)
next
  case (save_failed i w1 e)
  with assms getOrCreate_page_Inr(1) [OF save_failed(1)] show ?thesis
    by (simp add: handleSubmit_page_def saved_def submit_finally_def submit_catch_def)
next
  case (saved i w1 w2)
  note g = getOrCreate_page_Inr [OF saved(1)]
  from savePreferences_Inr [OF saved(2)] obtain db' where
    u: "upsert_preferences (preferences_upsert_fails f) OnConflict_primary_key
          (preferencesData i (chores (ui w)) (preferences (ui w))) (db w1) = Inr db'"
    and w2: "w2 = alert ''Preferences saved successfully!'' (w1\<lparr>db := db'\<rparr>)" by auto
  from u g(6,8) have t: "preferences_table db' =
      (if pk_roommate_chore (db w)
        then foldl upsert_row (preferences_table (db w))
               (preferencesData i (chores (ui w)) (preferences (ui w)))
        else preferences_table (db w) @ preferencesData i (chores (ui w)) (preferences (ui w)))"
    by (auto simp: upsert_preferences_def split: if_splits)
  from u g(6,8) have d: "pk_roommate_chore (db w) \<or>
     distinct (map pref_key (preferences_table (db w) @
        preferencesData i (chores (ui w)) (preferences (ui w))))"
    by (auto simp: upsert_preferences_def split: if_splits)
  have w': "handleSubmit_page f w = submit_finally w2"
    using saved(3) by (simp add: handleSubmit_page_def)
  have "roommateId (ui w1) = Some i"
    using g(4,5) by (cases "truthy_id (roommateId (ui w))") simp_all
  then have 1: "roommateId (ui (handleSubmit_page f w)) = Some i"
    by (simp add: w' w2 submit_finally_def)
  have 2: "\<not> truthy_id (roommateId (ui w)) \<or> roommateId (ui w) = Some i"
    using g(5) by auto
  have 3: "preferences_table (db (handleSubmit_page f w)) =
        (if pk_roommate_chore (db w)
        then foldl upsert_row (preferences_table (db w))
               (preferencesData i (chores (ui w)) (preferences (ui w)))
        else preferences_table (db w) @ preferencesData i (chores (ui w)) (preferences (ui w)))"
    by (simp add: w' w2 submit_finally_def t)
  from 1 2 3 d show ?thesis by (rule that)
qed

text \<open>The rows of a batch.\<close>

lemma preferencesData_rows:
  "length (preferencesData i C P) = length C"
  "map chore_id (preferencesData i C P) = map chore_ident C"
  "\<forall>p \<in> set (preferencesData i C P). roommate_id p = i"
  "\<forall>c \<in> set C. P (chore_ident c) = None \<longrightarrow>
     \<lparr>roommate_id = i, chore_id = chore_ident c, preference_score = Num 1\<rparr> \<in> set (preferencesData i C P)"
  "\<forall>p \<in> set (preferencesData i C P). preference_score p = score_or_default (P (chore_id p))"
  "pref_key ` set (preferencesData i C P) = (\<lambda>c. (i, chore_ident c)) ` set C"
  by (auto simp: preferencesData_def score_or_default_def pref_key_def image_iff)















section \<open>One row per pair\<close>

lemma upsert_rows_in_place:
  "take (length T) (foldl upsert_row T (preferencesData i C P)) =
     map (\<lambda>r. if roommate_id r = i \<and> chore_id r \<in> chore_ident ` set C
               then r\<lparr>preference_score := score_or_default (P (chore_id r))\<rparr> else r) T"
proof (rule nth_equalityI)
  show "length (take (length T) (foldl upsert_row T (preferencesData i C P))) =
        length (map (\<lambda>r. if roommate_id r = i \<and> chore_id r \<in> chore_ident ` set C
               then r\<lparr>preference_score := score_or_default (P (chore_id r))\<rparr> else r) T)"
    using length_upsert_rows [of T "preferencesData i C P"] by simp
next
  fix j
  assume "j < length (take (length T) (foldl upsert_row T (preferencesData i C P)))"
  then have j: "j < length T" by simp
  let ?B = "preferencesData i C P"
  have mem: "pref_key (T ! j) \<in> pref_key ` set ?B \<longleftrightarrow>
      roommate_id (T ! j) = i \<and> chore_id (T ! j) \<in> chore_ident ` set C"
    unfolding preferencesData_rows(6) by (auto simp: pref_key_def)
  have sc: "\<forall>p \<in> set ?B. pref_key p = pref_key (T ! j) \<longrightarrow>
      preference_score p = score_or_default (P (chore_id (T ! j)))"
    using preferencesData_rows(5) [where i = i and C = C and P = P] by (auto simp: pref_key_def)
  show "take (length T) (foldl upsert_row T ?B) ! j =
      map (\<lambda>r. if roommate_id r = i \<and> chore_id r \<in> chore_ident ` set C
               then r\<lparr>preference_score := score_or_default (P (chore_id r))\<rparr> else r) T ! j"
  proof (cases "pref_key (T ! j) \<in> pref_key ` set ?B")
    case True
    from nth_upsert_rows_same [OF j True sc] True j show ?thesis
      by (simp add: mem)
  next
    case False
    from nth_upsert_rows_other [OF j False] False j show ?thesis
      by (auto simp add: mem)
  qed
qed

text \<open>
  If no pair (roommate_id, chore_id) is stored twice before a submit, none is afterwards,
  in either file and whether the submit succeeds or fails.
\<close>

lemma distinct_keys_App:
  assumes "distinct (map pref_key (preferences_table (db w)))"
  shows "distinct (map pref_key (preferences_table (db (handleSubmit_App f w))))"
proof (cases "saved w (handleSubmit_App f w)")
  case True
  then obtain i where "preferences_table (db (handleSubmit_App f w)) =
       foldl upsert_row (preferences_table (db w)) (preferencesData i (chores (ui w)) (preferences (ui w)))"
    by (rule saved_App)
  with assms show ?thesis by (simp add: distinct_upsert_rows)
next
  case False
  with failed_submit_App [of w f] assms show ?thesis by simp
qed

lemma distinct_keys_page:
  assumes "distinct (map pref_key (preferences_table (db w)))"
  shows "distinct (map pref_key (preferences_table (db (handleSubmit_page f w))))"
proof (cases "saved w (handleSubmit_page f w)")
  case True
  then obtain i where i: "preferences_table (db (handleSubmit_page f w)) =
       (if pk_roommate_chore (db w)
        then foldl upsert_row (preferences_table (db w))
               (preferencesData i (chores (ui w)) (preferences (ui w)))
        else preferences_table (db w) @ preferencesData i (chores (ui w)) (preferences (ui w)))"
    "pk_roommate_chore (db w) \<or>
     distinct (map pref_key (preferences_table (db w) @
        preferencesData i (chores (ui w)) (preferences (ui w))))"
    by (rule saved_page)
  show ?thesis
  proof (cases "pk_roommate_chore (db w)")
    case True
    with i(1) assms show ?thesis by (simp add: distinct_upsert_rows)
  next
    case False
    with i show ?thesis by auto
  qed
next
  case False
  with failed_submit_page [of w f] assms show ?thesis by simp
qed

text \<open>
  Once the identity step has settled an id, the upsert of \<^verbatim>\<open>App.js\<close> is refused only
  when the backend fails; that of \<^verbatim>\<open>page.js\<close> too when the primary key is the pair.
\<close>

lemma upsert_succeeds_App:
  assumes "getOrCreate_App f (ui w) (setLoading True w) = Inr (i, w1)"
    and "\<not> preferences_upsert_fails f"
  shows "saved w (handleSubmit_App f w)"
  using assms getOrCreate_App_Inr(1) [OF assms(1)]
  by (simp add: saved_def handleSubmit_App_def handleSubmit_try_App_def
      savePreferences_def upsert_preferences_def submit_finally_def)

lemma upsert_succeeds_page:
  assumes "getOrCreate_page f (ui w) (setLoading True w) = Inr (i, w1)"
    and "\<not> preferences_upsert_fails f" and "pk_roommate_chore (db w)"
  shows "saved w (handleSubmit_page f w)"
  using assms getOrCreate_page_Inr(1,8) [OF assms(1)]
  by (simp add: saved_def handleSubmit_page_def handleSubmit_try_page_def
      savePreferences_def upsert_preferences_def submit_finally_def)

text \<open>
  A successful submit leaves every stored row in its place: the rows of the submitting
  identity for chores of the catalog get the submitted score, all other rows are
  unchanged. This holds for \<^verbatim>\<open>App.js\<close>, and for \<^verbatim>\<open>page.js\<close> when the primary key is
  the pair.
\<close>

lemma in_place_App:
  assumes "saved w (handleSubmit_App f w)"
  shows "\<exists>i. roommateId (ui (handleSubmit_App f w)) = Some i \<and>
     take (length (preferences_table (db w))) (preferences_table (db (handleSubmit_App f w))) =
       map (\<lambda>r. if roommate_id r = i \<and> chore_id r \<in> chore_ident ` set (chores (ui w))
                 then r\<lparr>preference_score := score_or_default (preferences (ui w) (chore_id r))\<rparr>
                 else r) (preferences_table (db w))"
proof -
  from assms obtain i where i: "roommateId (ui (handleSubmit_App f w)) = Some i"
    "preferences_table (db (handleSubmit_App f w)) =
       foldl upsert_row (preferences_table (db w)) (preferencesData i (chores (ui w)) (preferences (ui w)))"
    by (rule saved_App)
  show ?thesis
    by (rule exI [of _ i]) (simp only: i upsert_rows_in_place)
qed

lemma in_place_page:
  assumes "saved w (handleSubmit_page f w)" "pk_roommate_chore (db w)"
  shows "\<exists>i. roommateId (ui (handleSubmit_page f w)) = Some i \<and>
     take (length (preferences_table (db w))) (preferences_table (db (handleSubmit_page f w))) =
       map (\<lambda>r. if roommate_id r = i \<and> chore_id r \<in> chore_ident ` set (chores (ui w))
                 then r\<lparr>preference_score := score_or_default (preferences (ui w) (chore_id r))\<rparr>
                 else r) (preferences_table (db w))"
proof -
  from assms(1) obtain i where i: "roommateId (ui (handleSubmit_page f w)) = Some i"
    "preferences_table (db (handleSubmit_page f w)) =
       (if pk_roommate_chore (db w)
        then foldl upsert_row (preferences_table (db w))
               (preferencesData i (chores (ui w)) (preferences (ui w)))
        else preferences_table (db w) @ preferencesData i (chores (ui w)) (preferences (ui w)))"
    by (rule saved_page)
  show ?thesis
    by (rule exI [of _ i]) (simp only: i assms(2) if_True upsert_rows_in_place)
qed

lemma batch_alex_resolved:
  "preferencesData 7 [dishes, trash] [1 \<mapsto> Num 5, 2 \<mapsto> Num 0] =
     [\<lparr>roommate_id = 7, chore_id = 1, preference_score = Num 5\<rparr>,
      \<lparr>roommate_id = 7, chore_id = 2, preference_score = Num 1\<rparr>]"
  by (simp add: preferencesData_def dishes_def trash_def score_or_default_def)

lemma upsert_shared_house:
  "foldl upsert_row
     [\<lparr>roommate_id = 7, chore_id = 1, preference_score = Num 2\<rparr>,
      \<lparr>roommate_id = 8, chore_id = 1, preference_score = Num 5\<rparr>]
     [\<lparr>roommate_id = 7, chore_id = 1, preference_score = Num 5\<rparr>,
      \<lparr>roommate_id = 7, chore_id = 2, preference_score = Num 1\<rparr>] =
     [\<lparr>roommate_id = 7, chore_id = 1, preference_score = Num 5\<rparr>,
      \<lparr>roommate_id = 8, chore_id = 1, preference_score = Num 5\<rparr>,
      \<lparr>roommate_id = 7, chore_id = 2, preference_score = Num 1\<rparr>]"
  by (simp add: upsert_row_def pref_key_def)

lemma upsert_alex_resolved:
  "foldl upsert_row
     [\<lparr>roommate_id = 7, chore_id = 1, preference_score = Num 2\<rparr>,
      \<lparr>roommate_id = 8, chore_id = 1, preference_score = Num 5\<rparr>]
     (preferencesData 7 [dishes, trash] [1 \<mapsto> Num 5, 2 \<mapsto> Num 0]) =
     [\<lparr>roommate_id = 7, chore_id = 1, preference_score = Num 5\<rparr>,
      \<lparr>roommate_id = 8, chore_id = 1, preference_score = Num 5\<rparr>,
      \<lparr>roommate_id = 7, chore_id = 2, preference_score = Num 1\<rparr>]"
  unfolding batch_alex_resolved by (rule upsert_shared_house)

lemma second_submit_run:
  "preferences_table (db (handleSubmit_App no_faults (alex_resolved shared_house))) =
     [\<lparr>roommate_id = 7, chore_id = 1, preference_score = Num 5\<rparr>,
      \<lparr>roommate_id = 8, chore_id = 1, preference_score = Num 5\<rparr>,
      \<lparr>roommate_id = 7, chore_id = 2, preference_score = Num 1\<rparr>]"
  by (simp add: handleSubmit_App_def handleSubmit_try_App_def getOrCreate_App_def find_or_insert_roommate_def savePreferences_def
      no_faults_def alex_resolved_def shared_house_def upsert_preferences_def
      submit_finally_def Let_def upsert_alex_resolved del: One_nat_def)

lemma second_submit_run_page:
  "handleSubmit_page no_faults (alex_resolved shared_house) =
     \<lparr>ui = \<lparr>roommateName = ''Alex'', roommateId = Some 7, chores = [dishes, trash],
             preferences = [1 \<mapsto> Num 5, 2 \<mapsto> Num 0], loading = False\<rparr>,
      db = shared_house, timer = None, inflight = [],
      out = [ConsoleError ''Error:'', Alert ''An error occurred while saving preferences.'']\<rparr>"
  by (simp add: handleSubmit_page_def handleSubmit_try_page_def getOrCreate_page_def
      savePreferences_def no_faults_def alex_resolved_def shared_house_def upsert_preferences_def
      submit_finally_def submit_catch_def setLoading_def alert_def console_error_def Let_def
      batch_alex_resolved pref_key_def del: One_nat_def)

text \<open>
  C3 on \<^verbatim>\<open>page.js\<close>, whose upsert names no conflict target. Alex is resolved to id 7 and
  has the stored row (7, 1, 2); the score of chore 1 is changed to 5 and the form is
  submitted, with no failure of the backend. In \<^verbatim>\<open>App.js\<close>, whose conflict target is the
  pair (roommate_id, chore_id), the submit succeeds, the stored row gets the score 5 in its
  place and the row for chore 2 is added. In \<^verbatim>\<open>page.js\<close> the conflict target is the
  primary key of the table; the store here keeps a surrogate key beside the unique index
  on the pair, so the rows are inserted, the index refuses the stored pair, the submit
  ends with the failure notice and the stored row keeps the score 2.
\<close>

theorem upsert_page_refuses_stored_pair:
  "roommateId (ui (alex_resolved shared_house)) = Some 7 \<and>
   preferences (ui (alex_resolved shared_house)) 1 = Some (Num 5) \<and>
   preferences_table (db (alex_resolved shared_house)) =
     [\<lparr>roommate_id = 7, chore_id = 1, preference_score = Num 2\<rparr>,
      \<lparr>roommate_id = 8, chore_id = 1, preference_score = Num 5\<rparr>] \<and>
   out (handleSubmit_page no_faults (alex_resolved shared_house)) =
     [ConsoleError ''Error:'', Alert ''An error occurred while saving preferences.''] \<and>
   preferences_table (db (handleSubmit_page no_faults (alex_resolved shared_house))) =
     [\<lparr>roommate_id = 7, chore_id = 1, preference_score = Num 2\<rparr>,
      \<lparr>roommate_id = 8, chore_id = 1, preference_score = Num 5\<rparr>] \<and>
   out (handleSubmit_App no_faults (alex_resolved shared_house)) =
     [Alert ''Preferences saved successfully!''] \<and>
   preferences_table (db (handleSubmit_App no_faults (alex_resolved shared_house))) =
     [\<lparr>roommate_id = 7, chore_id = 1, preference_score = Num 5\<rparr>,
      \<lparr>roommate_id = 8, chore_id = 1, preference_score = Num 5\<rparr>,
      \<lparr>roommate_id = 7, chore_id = 2, preference_score = Num 1\<rparr>]"
proof -
  have 1: "roommateId (ui (alex_resolved shared_house)) = Some 7"
    "preferences (ui (alex_resolved shared_house)) 1 = Some (Num 5)"
    "preferences_table (db (alex_resolved shared_house)) =
     [\<lparr>roommate_id = 7, chore_id = 1, preference_score = Num 2\<rparr>,
      \<lparr>roommate_id = 8, chore_id = 1, preference_score = Num 5\<rparr>]"
    by (simp_all add: alex_resolved_def shared_house_def)
  have 2: "out (handleSubmit_page no_faults (alex_resolved shared_house)) =
     [ConsoleError ''Error:'', Alert ''An error occurred while saving preferences.'']"
    "preferences_table (db (handleSubmit_page no_faults (alex_resolved shared_house))) =
     [\<lparr>roommate_id = 7, chore_id = 1, preference_score = Num 2\<rparr>,
      \<lparr>roommate_id = 8, chore_id = 1, preference_score = Num 5\<rparr>]"
    unfolding second_submit_run_page by (simp_all add: shared_house_def)
  have 3: "out (handleSubmit_App no_faults (alex_resolved shared_house)) =
     [Alert ''Preferences saved successfully!'']"
    by (simp add: handleSubmit_App_def handleSubmit_try_App_def getOrCreate_App_def
        savePreferences_def no_faults_def alex_resolved_def upsert_preferences_def
        submit_finally_def Let_def)
  from 1 2 3 second_submit_run show ?thesis by simp
qed

section \<open>Creating the identity once\<close>

text \<open>
  In \<^verbatim>\<open>App.js\<close> the identity step run a second time for the same trimmed name, by a
  session that has the identity of the first run or none, returns the id of the first run
  and inserts nothing: it keeps an id that is present and otherwise looks the name up
  before inserting.
\<close>

lemma getOrCreate_App_again:
  assumes "\<not> truthy_id (roommateId c)" and "getOrCreate_App f c w = Inr (i, w1)"
    and "trim (roommateName c') = trim (roommateName c)"
    and "roommateId c' = None \<or> roommateId c' = Some i"
    and "\<not> roommates_select_fails f'"
  shows "getOrCreate_App f' c' w1 =
           Inr (i, if truthy_id (roommateId c') then w1 else setRoommateId (Some i) w1)"
    and "length (roommates_table (db w1)) \<le> Suc (length (roommates_table (db w)))"
proof -
  from getOrCreate_App_Inr(11) [OF assms(2) assms(1)] obtain r where
    r: "roommates_eq_name (trim (roommateName c)) (db w1) = [r]" "roommate_ident r = i" by blast
  have n: "find_or_insert_roommate f' (trim (roommateName c')) w1 = Inr (i, setRoommateId (Some i) w1)"
    using assms(3,5) r by (simp add: find_or_insert_roommate_def maybeSingle_simps)
  show "getOrCreate_App f' c' w1 =
           Inr (i, if truthy_id (roommateId c') then w1 else setRoommateId (Some i) w1)"
  proof (cases "truthy_id (roommateId c')")
    case True
    from getOrCreate_truthy [OF True] obtain j where
      j: "roommateId c' = Some j" "getOrCreate_App f' c' w1 = Inr (j, w1)" by blast
    with assms(4) True show ?thesis by simp
  next
    case False
    with getOrCreate_falsy(1) [OF False] n show ?thesis by simp
  qed
  from getOrCreate_App_Inr(10) [OF assms(2)]
  show "length (roommates_table (db w1)) \<le> Suc (length (roommates_table (db w)))"
    by auto
qed

text \<open>
  C2 on \<^verbatim>\<open>page.js\<close>, whose identity step inserts without looking the name up. A session
  with no resolved identity submits the name Alex: Alex is inserted with id 1. A second
  session with no resolved identity submits the same name: without a unique constraint on
  the name a second row is inserted and the id is 2; with the constraint the insert is
  refused and the submit fails. The identity step of \<^verbatim>\<open>App.js\<close> returns id 1 there and
  inserts nothing.
\<close>

theorem getOrCreate_page_inserts_again:
  "identity_result (getOrCreate_page no_faults (ui (alex_typed empty_house)) (alex_typed empty_house)) =
     Inr (1, [\<lparr>roommate_ident = 1, roommate_name = ''Alex''\<rparr>]) \<and>
   getOrCreate_page no_faults (ui (alex_typed empty_house)) (alex_typed empty_house) =
     Inr (1, alex_inserted) \<and>
   identity_result (getOrCreate_page no_faults (ui (alex_typed empty_house)) alex_inserted) =
     Inr (2, [\<lparr>roommate_ident = 1, roommate_name = ''Alex''\<rparr>,
              \<lparr>roommate_ident = 2, roommate_name = ''Alex''\<rparr>]) \<and>
   identity_result (getOrCreate_page no_faults (ui (alex_typed empty_house))
      (alex_inserted\<lparr>db := (db alex_inserted)\<lparr>name_unique := True\<rparr>\<rparr>)) = Inl UniqueViolation \<and>
   identity_result (getOrCreate_App no_faults (ui (alex_typed empty_house)) alex_inserted) =
     Inr (1, [\<lparr>roommate_ident = 1, roommate_name = ''Alex''\<rparr>])"
  by (simp add: identity_result_def getOrCreate_page_def insert_new_roommate_def getOrCreate_App_def find_or_insert_roommate_def no_faults_def
      alex_typed_def alex_inserted_def empty_house_def insert_roommate_def roommates_eq_name_def
      maybeSingle_simps trim_Alex setRoommateId_def Let_def del: One_nat_def)

end
